theory Spec2Isabelle
  imports Complex_Main "HOL-Library.Sublist" "HOL-Library.AList"
begin

chapter \<open>EWS monitor front end: spreadsheet import, matching and reconciliation\<close>

text \<open>
  A shallow embedding of the two upload pages of the EWS monitor front end:
  \<^verbatim>\<open>src/components/UploadFrameworkTable.tsx\<close> (the rules table),
  \<^verbatim>\<open>src/pages/EventsVerified.tsx\<close> (the events table) and the older rules upload page
  (\<^verbatim>\<open>UploadFramework\<close>). React state is an explicit record that every handler takes and
  returns; everything outside the component (the spreadsheet library, the remote store, the
  browser's storage, clock and random source) is a parameter.
\<close>

section \<open>JavaScript values\<close>

text \<open>
  A JavaScript number is a finite value, \<open>NaN\<close> or an infinity. Finite values are taken as
  exact reals: the code only compares them with constants and tests them for finiteness.
\<close>

datatype jsnum = Fin real | NaN | PosInf | NegInf

text \<open>
  The values a spreadsheet cell or a field of a row can hold. \<open>CUndef\<close> also stands for a
  property that is absent (reading it gives \<open>undefined\<close>). \<open>CDate None\<close> is an invalid
  \<open>Date\<close>, \<open>CDate (Some t)\<close> a date with time value \<open>t\<close> (milliseconds since the epoch).
  \<open>CStrs\<close> is an array of strings (the tags of a rule).
\<close>

datatype cell =
    CUndef
  | CNull
  | CBool bool
  | CNum jsnum
  | CStr string
  | CStrs "string list"
  | CDate "int option"

text \<open>Truthiness, as \<open>if (v)\<close>, \<open>!v\<close> and \<open>a || b\<close> test it.\<close>

fun truthy :: "cell \<Rightarrow> bool" where
  "truthy CUndef = False"
| "truthy CNull = False"
| "truthy (CBool b) = b"
| "truthy (CNum n) = (n \<noteq> Fin 0 \<and> n \<noteq> NaN)"
| "truthy (CStr s) = (s \<noteq> [])"
| "truthy (CStrs xs) = True"
| "truthy (CDate d) = True"

definition nullish :: "cell \<Rightarrow> bool" where
  "nullish v = (v = CUndef \<or> v = CNull)"

text \<open>\<open>a ?? b\<close> and \<open>a || b\<close> on cells.\<close>

definition coalesce :: "cell \<Rightarrow> cell \<Rightarrow> cell" where
  "coalesce a b = (if nullish a then b else a)"

definition or_else :: "cell \<Rightarrow> cell \<Rightarrow> cell" where
  "or_else a b = (if truthy a then a else b)"

subsection \<open>Strings\<close>

text \<open>
  Strings are byte strings. White space is the ASCII white space that \<open>trim\<close> and the
  regular expression class \<open>\s\<close> remove; case folding is that of the ASCII letters.
\<close>

definition is_space :: "char \<Rightarrow> bool" where
  "is_space c = (c \<in> set [CHR 0x09, CHR 0x0A, CHR 0x0B, CHR 0x0C, CHR 0x0D, CHR '' ''])"

definition trim :: "string \<Rightarrow> string" where
  "trim s = rev (dropWhile is_space (rev (dropWhile is_space s)))"

definition toLowerChar :: "char \<Rightarrow> char" where
  "toLowerChar c =
     (case map_of (zip ''ABCDEFGHIJKLMNOPQRSTUVWXYZ'' ''abcdefghijklmnopqrstuvwxyz'') c of
        Some d \<Rightarrow> d
      | None \<Rightarrow> c)"

definition toLowerCase :: "string \<Rightarrow> string" where
  "toLowerCase s = map toLowerChar s"


text \<open>\<open>hay.includes(needle)\<close> and \<open>s.startsWith(p)\<close>.\<close>

definition str_includes :: "string \<Rightarrow> string \<Rightarrow> bool" where
  "str_includes hay needle = sublist needle hay"

definition startsWith :: "string \<Rightarrow> string \<Rightarrow> bool" where
  "startsWith s p = prefix p s"

text \<open>\<open>s.split(c)\<close> for a one-character separator: the empty string splits into \<open>[""]\<close>.\<close>

fun split_on :: "(char \<Rightarrow> bool) \<Rightarrow> string \<Rightarrow> string list" where
  "split_on sep [] = [[]]"
| "split_on sep (c # cs) =
     (if sep c then [] # split_on sep cs
      else (case split_on sep cs of
              [] \<Rightarrow> [[c]]
            | p # ps \<Rightarrow> (c # p) # ps))"

fun join_with :: "string \<Rightarrow> string list \<Rightarrow> string" where
  "join_with sep [] = []"
| "join_with sep [x] = x"
| "join_with sep (x # y # ys) = x @ sep @ join_with sep (y # ys)"

text \<open>\<open>val.split(",").map((s) => s.trim()).filter(Boolean)\<close>\<close>

definition split_tags :: "string \<Rightarrow> string list" where
  "split_tags s = filter (\<lambda>t. t \<noteq> []) (map trim (split_on (\<lambda>c. c = CHR '','') s))"

subsection \<open>Decimal numerals\<close>

text \<open>
  Counters and the numeric suffixes of rule codes are natural numbers. \<open>show_nat\<close> is the
  text of a number in a template string, \<open>num_of_digits\<close> is \<open>Number\<close> on a string of
  decimal digits.
\<close>

definition is_digit :: "char \<Rightarrow> bool" where
  "is_digit c = (c \<in> set ''0123456789'')"

definition digit_val :: "char \<Rightarrow> nat" where
  "digit_val c =
     (case map_of (zip ''0123456789'' [0, 1, 2, 3, 4, 5, 6, 7, 8, 9]) c of
        Some d \<Rightarrow> d
      | None \<Rightarrow> 0)"

definition digit_char :: "nat \<Rightarrow> char" where
  "digit_char d = ''0123456789'' ! d"

fun show_nat :: "nat \<Rightarrow> string" where
  "show_nat n =
     (if n < 10 then [digit_char n]
      else show_nat (n div 10) @ [digit_char (n mod 10)])"

declare show_nat.simps [simp del]

definition num_of_digits :: "string \<Rightarrow> nat" where
  "num_of_digits ds = foldl (\<lambda>a c. 10 * a + digit_val c) 0 ds"

subsection \<open>Library functions taken as parameters\<close>

text \<open>
  The conversions of the language that the model does not compute, the date parser of the
  engine and the serial-date decoder of the spreadsheet library
  (\<^verbatim>\<open>XLSX.SSF.parse_date_code\<close>, giving year, month and day).
  \<open>date_parse\<close> gives \<open>None\<close> where \<^verbatim>\<open>Date.parse\<close> gives \<open>NaN\<close>.
\<close>

record js_env =
  number_to_string :: "jsnum \<Rightarrow> string"
  string_to_number :: "string \<Rightarrow> jsnum"
  date_to_string :: "int \<Rightarrow> string"
  date_parse :: "string \<Rightarrow> int option"
  parse_date_code :: "real \<Rightarrow> (int \<times> int \<times> int) option"
  random_string :: "nat \<Rightarrow> string"
  clock :: "nat \<Rightarrow> int"

text \<open>\<open>String(v)\<close> and \<open>Number(v)\<close>.\<close>

fun to_string :: "js_env \<Rightarrow> cell \<Rightarrow> string" where
  "to_string env CUndef = ''undefined''"
| "to_string env CNull = ''null''"
| "to_string env (CBool b) = (if b then ''true'' else ''false'')"
| "to_string env (CNum n) = number_to_string env n"
| "to_string env (CStr s) = s"
| "to_string env (CStrs xs) = join_with '','' xs"
| "to_string env (CDate None) = ''Invalid Date''"
| "to_string env (CDate (Some t)) = date_to_string env t"

fun to_number :: "js_env \<Rightarrow> cell \<Rightarrow> jsnum" where
  "to_number env CUndef = NaN"
| "to_number env CNull = Fin 0"
| "to_number env (CBool b) = Fin (if b then 1 else 0)"
| "to_number env (CNum n) = n"
| "to_number env (CStr s) = string_to_number env s"
| "to_number env (CStrs xs) = string_to_number env (join_with '','' xs)"
| "to_number env (CDate None) = NaN"
| "to_number env (CDate (Some t)) = Fin (real_of_int t)"

definition is_finite :: "jsnum \<Rightarrow> bool" where
  "is_finite n = (case n of Fin x \<Rightarrow> True | _ \<Rightarrow> False)"

section \<open>Severity normalization\<close>

text \<open>\<^verbatim>\<open>normalizeSeverity\<close> of \<^verbatim>\<open>UploadFrameworkTable.tsx\<close>.\<close>

definition normalizeSeverity :: "cell \<Rightarrow> cell" where
  "normalizeSeverity v =
     (case v of
        CStr str \<Rightarrow>
          (let s = toLowerCase (trim str) in
           if startsWith s ''h'' then CStr ''High''
           else if startsWith s ''m'' then CStr ''Medium''
           else if startsWith s ''l'' then CStr ''Low''
           else if s = ''3'' \<or> s = ''high'' then CStr ''High''
           else if s = ''2'' \<or> s = ''medium'' then CStr ''Medium''
           else if s = ''1'' \<or> s = ''low'' then CStr ''Low''
           else v)
      | _ \<Rightarrow> v)"

section \<open>Rules and rows of the rules table\<close>

text \<open>
  \<^verbatim>\<open>EwsRule\<close> of \<^verbatim>\<open>src/types/ews.ts\<close>; a field that is absent reads \<open>CUndef\<close>
  (\<open>None\<close> for the rule code). A row of the rules table adds the server's \<^verbatim>\<open>_id\<close>, the
  client-local \<^verbatim>\<open>__localId\<close> and the validation errors \<^verbatim>\<open>_errors\<close>.
\<close>

record EwsRule =
  rule_code :: "string option"
  change_reported :: cell
  condition :: cell
  severity :: cell
  primary_action :: cell
  secondary_action :: cell
  tat_days :: cell
  assigned_team :: cell
  tags :: cell

record StoredRule = EwsRule +
  srv_id :: cell

record EditableRow = StoredRule +
  localId :: string
  errors :: "(string \<times> string) list option"

datatype field =
    ChangeReported | Condition | Severity | PrimaryAction
  | SecondaryAction | TatDays | AssignedTeam | Tags

definition EDITABLE_FIELDS :: "field list" where
  "EDITABLE_FIELDS =
     [ChangeReported, Condition, Severity, PrimaryAction,
      SecondaryAction, TatDays, AssignedTeam, Tags]"

fun field_key :: "field \<Rightarrow> string" where
  "field_key ChangeReported = ''change_reported''"
| "field_key Condition = ''condition''"
| "field_key Severity = ''severity''"
| "field_key PrimaryAction = ''primary_action''"
| "field_key SecondaryAction = ''secondary_action''"
| "field_key TatDays = ''tat_days''"
| "field_key AssignedTeam = ''assigned_team''"
| "field_key Tags = ''tags''"

fun field_label :: "field \<Rightarrow> string" where
  "field_label ChangeReported = ''Change Reported''"
| "field_label Condition = ''Condition''"
| "field_label Severity = ''Severity''"
| "field_label PrimaryAction = ''Primary Action''"
| "field_label SecondaryAction = ''Secondary Action''"
| "field_label TatDays = ''TAT (days)''"
| "field_label AssignedTeam = ''Assigned Team''"
| "field_label Tags = ''Tags''"

text \<open>\<open>row[f.key]\<close> and \<open>row[f.key] = v\<close>.\<close>

fun get_field :: "field \<Rightarrow> 'a EwsRule_scheme \<Rightarrow> cell" where
  "get_field ChangeReported r = change_reported r"
| "get_field Condition r = condition r"
| "get_field Severity r = severity r"
| "get_field PrimaryAction r = primary_action r"
| "get_field SecondaryAction r = secondary_action r"
| "get_field TatDays r = tat_days r"
| "get_field AssignedTeam r = assigned_team r"
| "get_field Tags r = tags r"

fun set_field :: "field \<Rightarrow> cell \<Rightarrow> 'a EwsRule_scheme \<Rightarrow> 'a EwsRule_scheme" where
  "set_field ChangeReported v r = r\<lparr>change_reported := v\<rparr>"
| "set_field Condition v r = r\<lparr>condition := v\<rparr>"
| "set_field Severity v r = r\<lparr>severity := v\<rparr>"
| "set_field PrimaryAction v r = r\<lparr>primary_action := v\<rparr>"
| "set_field SecondaryAction v r = r\<lparr>secondary_action := v\<rparr>"
| "set_field TatDays v r = r\<lparr>tat_days := v\<rparr>"
| "set_field AssignedTeam v r = r\<lparr>assigned_team := v\<rparr>"
| "set_field Tags v r = r\<lparr>tags := v\<rparr>"

text \<open>The object \<open>{ __localId: id }\<close>: a row with only its local identifier.\<close>

definition blank_row :: "string \<Rightarrow> EditableRow" where
  "blank_row i =
     \<lparr>rule_code = None, change_reported = CUndef, condition = CUndef, severity = CUndef,
      primary_action = CUndef, secondary_action = CUndef, tat_days = CUndef,
      assigned_team = CUndef, tags = CUndef, srv_id = CUndef, localId = i, errors = None\<rparr>"

section \<open>Rule codes\<close>

text \<open>
  The match of \<open>/(\d+)$/\<close> on a code: its longest run of digits at the end, as a number,
  when there is one.
\<close>

definition trailing_digits :: "string \<Rightarrow> string" where
  "trailing_digits s = rev (takeWhile is_digit (rev s))"

definition suffix_num :: "string \<Rightarrow> nat option" where
  "suffix_num s =
     (let ds = trailing_digits s in if ds = [] then None else Some (num_of_digits ds))"

definition code_text :: "string option \<Rightarrow> string" where
  "code_text rc = (case rc of None \<Rightarrow> [] | Some s \<Rightarrow> s)"

text \<open>\<open>Math.max(...nums)\<close> of a list that is not empty.\<close>

fun list_max :: "nat list \<Rightarrow> nat" where
  "list_max [] = 0"
| "list_max (x # xs) = fold max xs x"

text \<open>
  \<^verbatim>\<open>generateRuleCode(existingRows, counterRef)\<close>: the counter is passed in and returned.
\<close>

definition existing_nums :: "string option list \<Rightarrow> nat list" where
  "existing_nums codes = List.map_filter (\<lambda>rc. suffix_num (code_text rc)) codes"

definition bump_counter :: "string option list \<Rightarrow> nat \<Rightarrow> nat" where
  "bump_counter codes counter =
     (let nums = existing_nums codes in
      if nums \<noteq> [] \<and> list_max nums \<ge> counter then list_max nums + 1 else counter)"

definition generateRuleCode :: "EditableRow list \<Rightarrow> nat \<Rightarrow> string \<times> nat" where
  "generateRuleCode existingRows counter =
     (let val = bump_counter (map rule_code existingRows) counter
      in (''R-'' @ show_nat val, val + 1))"

section \<open>Objects as association lists\<close>

text \<open>
  A plain object is the list of its properties. \<open>obj[k] = v\<close> replaces the value of a key
  that is present and appends a new key (\<open>AList.update\<close>); \<open>obj[k]\<close> reads \<open>undefined\<close> for
  a key that is absent. \<open>Object.keys\<close> lists the keys that are canonical array indices first,
  in ascending numeric order, then the other keys in the order of their creation.
\<close>

type_synonym raw_row = "(string \<times> cell) list"

definition index_value :: "string \<Rightarrow> int" where
  "index_value ds = foldl (\<lambda>a c. 10 * a + int (digit_val c)) 0 ds"

definition is_index_key :: "string \<Rightarrow> bool" where
  "is_index_key k =
     (k \<noteq> [] \<and> list_all is_digit k \<and> (k = ''0'' \<or> hd k \<noteq> CHR ''0'') \<and>
      index_value k < 4294967295)"

definition own_keys :: "(string \<times> 'a) list \<Rightarrow> string list" where
  "own_keys obj =
     (let ks = map fst obj
      in sort_key index_value (filter is_index_key ks) @ filter (\<lambda>k. \<not> is_index_key k) ks)"

definition get_prop :: "raw_row \<Rightarrow> string \<Rightarrow> cell" where
  "get_prop obj k = (case map_of obj k of None \<Rightarrow> CUndef | Some v \<Rightarrow> v)"

text \<open>The elements of a \<open>Set\<close> in insertion order: the first occurrence of each value.\<close>

definition dedupe :: "'a list \<Rightarrow> 'a list" where
  "dedupe xs = rev (remdups (rev xs))"

section \<open>The remote store and the browser\<close>

datatype js_error = RangeError | TypeError | SyntaxError | NetworkError

text \<open>
  A record as \<^verbatim>\<open>GET /rules\<close> returns it: the fields of a rule, the identifier under \<^verbatim>\<open>_id\<close>
  or \<^verbatim>\<open>id\<close> and the code under \<^verbatim>\<open>rule_code\<close>, \<^verbatim>\<open>ruleCode\<close> or \<^verbatim>\<open>code\<close>.
\<close>

record srv_rule = EwsRule +
  sv_uid :: cell
  sv_id :: cell
  sv_ruleCode :: "string option"
  sv_code :: "string option"

text \<open>
  The body \<open>res.data\<close> of a response that lists records: an array, an envelope
  \<open>{data: [...]}\<close> (\<open>None\<close> when its \<open>data\<close> is absent), or nothing. An envelope whose
  \<open>data\<close> is not an array is outside the model.
\<close>

datatype 'a resp_body = BArray "'a list" | BEnvelope "'a list option" | BEmpty

text \<open>\<open>Array.isArray(res.data) ? res.data : res.data?.data ?? []\<close>, then \<open>data || []\<close>.\<close>

fun body_list :: "'a resp_body \<Rightarrow> 'a list" where
  "body_list (BArray xs) = xs"
| "body_list (BEnvelope (Some xs)) = xs"
| "body_list (BEnvelope None) = []"
| "body_list BEmpty = []"

text \<open>The requests of the rules table; an update or a delete is keyed by the row's \<^verbatim>\<open>_id\<close>.\<close>

datatype rules_call =
    GetRules
  | PutRule cell StoredRule
  | PostRule StoredRule
  | DeleteRule cell

text \<open>
  The remote store answers a request as a function of the requests it has received before:
  whether the request succeeds, and what a successful \<^verbatim>\<open>GET /rules\<close> returns.
\<close>

record rules_server =
  succeeds :: "rules_call list \<Rightarrow> rules_call \<Rightarrow> bool"
  rules_body :: "rules_call list \<Rightarrow> srv_rule resp_body"

text \<open>
  \<^verbatim>\<open>JSON.stringify\<close> and \<^verbatim>\<open>JSON.parse\<close> on a draft (\<open>None\<close>: a syntax error), and whether
  \<^verbatim>\<open>localStorage.setItem\<close> accepts a text (it raises when the quota is exceeded).
\<close>

record 'd storage_env =
  stringify :: "'d \<Rightarrow> string"
  parse_json :: "string \<Rightarrow> 'd option"
  quota_ok :: "string \<Rightarrow> bool"

section \<open>The rules table (\<^verbatim>\<open>UploadFrameworkTable\<close>)\<close>

text \<open>
  The state of the component: its React state, the two refs it keeps (\<open>counterRef\<close>, and
  the number of \<^verbatim>\<open>Math.random\<close> draws so far), the draft under the key
  \<^verbatim>\<open>upload_framework_draft\<close>, and what it has sent, shown and logged.
\<close>

record rules_draft =
  d_headers :: "string list option"
  d_rows :: "EditableRow list option"

record table_state =
  rows :: "EditableRow list"
  rawHeaders :: "string list"
  rawRows :: "raw_row list"
  mapping :: "(string \<times> string) list"
  backendRules :: "srv_rule list"
  importedCount :: "nat option"
  savedDraftExists :: bool
  counterRef :: nat
  draws :: nat
  draft :: "string option"
  calls :: "rules_call list"
  alerts :: "string list"
  logged :: "string list"

text \<open>\<^verbatim>\<open>genLocalId\<close>: the \<open>k\<close>-th draw of the random source gives the \<open>k\<close>-th identifier.\<close>

definition genLocalId :: "js_env \<Rightarrow> nat \<Rightarrow> string" where
  "genLocalId env k = ''loc_'' @ random_string env k"

definition cleanHeader :: "string \<Rightarrow> string" where
  "cleanHeader h = trim h"

definition cleanHeaderCell :: "js_env \<Rightarrow> cell \<Rightarrow> string" where
  "cleanHeaderCell env h = trim (to_string env (or_else h (CStr [])))"

subsection \<open>Loading the catalog\<close>

text \<open>The normalization of one field of a record of the server, in \<^verbatim>\<open>loadBackendRules\<close>.\<close>

definition load_field :: "js_env \<Rightarrow> field \<Rightarrow> cell \<Rightarrow> cell" where
  "load_field env f v0 =
     (let v1 = (case (f, v0) of (Tags, CStr s) \<Rightarrow> CStrs (split_tags s) | _ \<Rightarrow> v0);
          v2 = (if f = TatDays
                then (let n = to_number env v1 in if is_finite n then CNum n else CStr [])
                else v1);
          v3 = (if f = Severity then normalizeSeverity v2 else v2)
      in coalesce v3 (CStr []))"

definition load_row :: "js_env \<Rightarrow> string \<Rightarrow> nat \<Rightarrow> srv_rule \<Rightarrow> EditableRow" where
  "load_row env lid idx r =
     fold (\<lambda>f out. set_field f (load_field env f (get_field f r)) out) EDITABLE_FIELDS
       ((blank_row lid)
          \<lparr>srv_id := coalesce (sv_uid r) (coalesce (sv_id r) (coalesce (sv_id r) CUndef)),
           rule_code :=
             (case rule_code r of Some c \<Rightarrow> Some c
              | None \<Rightarrow> (case sv_ruleCode r of Some c \<Rightarrow> Some c
              | None \<Rightarrow> (case sv_code r of Some c \<Rightarrow> Some c
              | None \<Rightarrow> Some (''R-'' @ show_nat (1000 + idx)))))\<rparr>)"

definition load_rows :: "js_env \<Rightarrow> nat \<Rightarrow> srv_rule list \<Rightarrow> EditableRow list" where
  "load_rows env k rs =
     map (\<lambda>(idx, r). load_row env (genLocalId env (k + idx)) idx r) (enumerate 0 rs)"

definition loadBackendRules :: "js_env \<Rightarrow> rules_server \<Rightarrow> table_state \<Rightarrow> table_state" where
  "loadBackendRules env srv st =
     (let st1 = st\<lparr>calls := calls st @ [GetRules]\<rparr>
      in if succeeds srv (calls st) GetRules
         then (let rs = body_list (rules_body srv (calls st))
               in st1\<lparr>backendRules := rs,
                      rows := load_rows env (draws st) rs,
                      draws := draws st + length rs,
                      counterRef := bump_counter (map rule_code rs) (counterRef st)\<rparr>)
         else st1\<lparr>logged := logged st @ [''Failed to load rules''],
                  alerts := alerts st @ [''Failed to fetch rules from backend.'']\<rparr>)"

subsection \<open>Row helpers\<close>



definition deleteRow ::
  "js_env \<Rightarrow> rules_server \<Rightarrow> bool \<Rightarrow> string \<Rightarrow> table_state \<Rightarrow> table_state" where
  "deleteRow env srv confirmed lid st =
     (case find (\<lambda>r. localId r = lid) (rows st) of
        None \<Rightarrow> st
      | Some target \<Rightarrow>
          if truthy (srv_id target) then
            (if \<not> confirmed then st
             else (let call = DeleteRule (srv_id target);
                       st1 = st\<lparr>calls := calls st @ [call]\<rparr>
                   in if succeeds srv (calls st) call
                      then loadBackendRules env srv
                             (st1\<lparr>rows := filter (\<lambda>r. localId r \<noteq> lid) (rows st)\<rparr>)
                      else st1\<lparr>logged := logged st @ [''delete failed''],
                               alerts := alerts st @ [''Failed to delete rule on server.'']\<rparr>))
          else
            (if \<not> confirmed then st
             else st\<lparr>rows := filter (\<lambda>r. localId r \<noteq> lid) (rows st)\<rparr>))"

subsection \<open>Validation\<close>

text \<open>
  \<^verbatim>\<open>validateAll\<close> writes a severity that normalizes to a known tier back into the row object
  itself (\<open>normalize_in_place\<close>), so the rows that \<^verbatim>\<open>upsertAll\<close> iterates over carry it too.
\<close>

definition severity_ok :: "js_env \<Rightarrow> cell \<Rightarrow> bool" where
  "severity_ok env v =
     (to_string env (normalizeSeverity v) \<in> set [''High'', ''Medium'', ''Low''])"

definition normalize_in_place :: "js_env \<Rightarrow> EditableRow \<Rightarrow> EditableRow" where
  "normalize_in_place env r =
     (if truthy (severity r) \<and> severity_ok env (severity r)
      then r\<lparr>severity := normalizeSeverity (severity r)\<rparr>
      else r)"

definition row_errors :: "js_env \<Rightarrow> EditableRow \<Rightarrow> (string \<times> string) list" where
  "row_errors env r =
     (let cr = to_string env (coalesce (change_reported r) (CStr []));
          td = coalesce (tat_days r) (CStr [])
      in (if cr = [] \<or> trim cr = [] then [(''change_reported'', ''Required'')] else []) @
         (if td \<noteq> CStr [] \<and> td \<noteq> CNull \<and> td \<noteq> CUndef \<and> to_number env td = NaN
          then [(''tat_days'', ''Must be a number'')] else []) @
         (if truthy (severity r) \<and> \<not> severity_ok env (severity r)
          then [(''severity'', ''Invalid'')] else []))"

definition validate_row :: "js_env \<Rightarrow> EditableRow \<Rightarrow> EditableRow" where
  "validate_row env r = (normalize_in_place env r)\<lparr>errors := Some (row_errors env r)\<rparr>"

definition validateAll :: "js_env \<Rightarrow> EditableRow list \<Rightarrow> EditableRow list \<times> bool" where
  "validateAll env rs =
     (let validated = map (validate_row env) rs
      in (validated,
          list_all (\<lambda>rr. case errors rr of None \<Rightarrow> True | Some es \<Rightarrow> es = []) validated))"

subsection \<open>Batch persistence\<close>

text \<open>The payload of a row: the row without \<^verbatim>\<open>__localId\<close> and \<^verbatim>\<open>_errors\<close>.\<close>

definition payload_of :: "EditableRow \<Rightarrow> StoredRule" where
  "payload_of r = StoredRule.truncate r"

definition upsert_call :: "EditableRow \<Rightarrow> rules_call" where
  "upsert_call r =
     (if truthy (srv_id r) then PutRule (srv_id r) (payload_of r) else PostRule (payload_of r))"

text \<open>
  The loop of \<^verbatim>\<open>upsertAll\<close>: the requests sent so far, the number of results pushed and the
  failures logged.
\<close>

fun upsert_loop ::
  "rules_server \<Rightarrow> EditableRow list \<Rightarrow> rules_call list \<Rightarrow> nat \<Rightarrow> string list
     \<Rightarrow> rules_call list \<times> nat \<times> string list" where
  "upsert_loop srv [] cs n lg = (cs, n, lg)"
| "upsert_loop srv (r # rs) cs n lg =
     (if succeeds srv cs (upsert_call r)
      then upsert_loop srv rs (cs @ [upsert_call r]) (n + 1) lg
      else upsert_loop srv rs (cs @ [upsert_call r]) n
             (lg @ [if truthy (srv_id r) then ''Failed updating rule'' else ''Failed creating rule'']))"

text \<open>
  The number of requests of a batch that succeed, each sent after the ones before it.
\<close>

fun succeeded :: "rules_server \<Rightarrow> rules_call list \<Rightarrow> rules_call list \<Rightarrow> nat" where
  "succeeded srv before [] = 0"
| "succeeded srv before (c # cs) =
     (if succeeds srv before c then 1 else 0) + succeeded srv (before @ [c]) cs"

definition upsertAll :: "js_env \<Rightarrow> rules_server \<Rightarrow> table_state \<Rightarrow> table_state" where
  "upsertAll env srv st =
     (let (validated, ok) = validateAll env (rows st);
          st1 = st\<lparr>rows := validated\<rparr>
      in if \<not> ok
         then st1\<lparr>alerts := alerts st @ [''Fix validation errors before saving.'']\<rparr>
         else (let (cs, n, lg) =
                     upsert_loop srv (map (normalize_in_place env) (rows st)) (calls st) 0 (logged st);
                   st2 = loadBackendRules env srv (st1\<lparr>calls := cs, logged := lg\<rparr>)
               in st2\<lparr>importedCount := Some n,
                      draft := None,
                      savedDraftExists := False,
                      alerts := alerts st2 @ [''Saved rules to server.'']\<rparr>))"

subsection \<open>Drafts\<close>

definition regenerate :: "js_env \<Rightarrow> nat \<Rightarrow> EditableRow list \<Rightarrow> EditableRow list" where
  "regenerate env k rs =
     map (\<lambda>(i, r). r\<lparr>localId := genLocalId env (k + i)\<rparr>) (enumerate 0 rs)"

definition saveDraft :: "rules_draft storage_env \<Rightarrow> table_state \<Rightarrow> table_state" where
  "saveDraft sto st =
     (let text = stringify sto \<lparr>d_headers = Some (rawHeaders st), d_rows = Some (rows st)\<rparr>
      in if quota_ok sto text
         then st\<lparr>draft := Some text, savedDraftExists := True,
                 alerts := alerts st @ [''Draft saved locally.'']\<rparr>
         else st\<lparr>logged := logged st @ [''setItem failed''],
                 alerts := alerts st @ [''Failed to save draft.'']\<rparr>)"

definition loadDraft :: "js_env \<Rightarrow> rules_draft storage_env \<Rightarrow> table_state \<Rightarrow> table_state" where
  "loadDraft env sto st =
     (case draft st of
        None \<Rightarrow> st\<lparr>alerts := alerts st @ [''No draft found.'']\<rparr>
      | Some d \<Rightarrow>
          if d = [] then st\<lparr>alerts := alerts st @ [''No draft found.'']\<rparr>
          else (case parse_json sto d of
                  None \<Rightarrow> st\<lparr>logged := logged st @ [''JSON.parse failed''],
                              alerts := alerts st @ [''Failed to load draft.'']\<rparr>
                | Some parsed \<Rightarrow>
                    (let hs = (case d_headers parsed of None \<Rightarrow> [] | Some h \<Rightarrow> h);
                         rs = (case d_rows parsed of None \<Rightarrow> [] | Some r \<Rightarrow> r)
                     in st\<lparr>rawHeaders := hs,
                           rows := regenerate env (draws st) rs,
                           draws := draws st + length rs,
                           savedDraftExists := True,
                           alerts := alerts st @ [''Draft loaded.'']\<rparr>)))"

section \<open>Header auto-mapping\<close>

text \<open>
  \<open>lowerMap\<close>: from each header in lower case to the header itself. The test of one header
  key against the key and label of a target field has four alternatives on the upload page
  (\<^verbatim>\<open>UploadFramework\<close>) and a fifth in the rules table. \<open>Array.find\<close> returns the first key
  in enumeration order that passes the test.
\<close>

definition lower_map :: "string list \<Rightarrow> (string \<times> string) list" where
  "lower_map headers = fold (\<lambda>h m. AList.update (toLowerCase h) h m) headers []"

definition header_matches :: "string \<Rightarrow> string \<Rightarrow> string \<Rightarrow> bool" where
  "header_matches key label lh =
     (let lhLower = toLowerCase lh; keyStr = toLowerCase key; labelStr = toLowerCase label
      in lhLower = keyStr \<or>
         str_includes lhLower keyStr \<or>
         str_includes labelStr lhLower \<or>
         str_includes keyStr lhLower)"

definition header_matches_table :: "string \<Rightarrow> string \<Rightarrow> string \<Rightarrow> bool" where
  "header_matches_table key label lh =
     (let lhLower = toLowerCase lh; keyStr = toLowerCase key; labelLower = toLowerCase label
      in lhLower = keyStr \<or>
         str_includes lhLower keyStr \<or>
         str_includes labelLower lhLower \<or>
         str_includes keyStr lhLower \<or>
         str_includes lhLower labelLower)"

text \<open>\<open>/severity|level|risk/i.test(h)\<close>\<close>

definition severity_like :: "string \<Rightarrow> bool" where
  "severity_like h =
     (let l = toLowerCase h
      in str_includes l ''severity'' \<or> str_includes l ''level'' \<or> str_includes l ''risk'')"

text \<open>
  One step of the loop over the target fields: \<open>if (possible) initialMap[f.key] =
  lowerMap[possible]\<close>. The empty key is falsy, so a header that is empty is never assigned.
\<close>

definition map_field ::
  "(string \<Rightarrow> string \<Rightarrow> string \<Rightarrow> bool) \<Rightarrow> (string \<times> string) list \<Rightarrow> string \<times> string
     \<Rightarrow> (string \<times> string) list \<Rightarrow> (string \<times> string) list" where
  "map_field matches lowerMap f m =
     (case find (matches (fst f) (snd f)) (own_keys lowerMap) of
        None \<Rightarrow> m
      | Some possible \<Rightarrow>
          if possible = [] then m
          else (case map_of lowerMap possible of
                  None \<Rightarrow> m
                | Some h \<Rightarrow> AList.update (fst f) h m))"

definition direct_map ::
  "(string \<Rightarrow> string \<Rightarrow> string \<Rightarrow> bool) \<Rightarrow> (string \<times> string) list \<Rightarrow> (string \<times> string) list
     \<Rightarrow> (string \<times> string) list" where
  "direct_map matches targets lowerMap = fold (map_field matches lowerMap) targets []"

text \<open>The fallback for the severity field, when \<open>!initialMap["severity"]\<close>.\<close>

definition severity_fallback ::
  "(string \<times> string) list \<Rightarrow> (string \<times> string) list \<Rightarrow> (string \<times> string) list" where
  "severity_fallback lowerMap m =
     (if (case map_of m ''severity'' of None \<Rightarrow> True | Some h \<Rightarrow> h = [])
      then (case find severity_like (own_keys lowerMap) of
              None \<Rightarrow> m
            | Some candidate \<Rightarrow>
                if candidate = [] then m
                else (case map_of lowerMap candidate of
                        None \<Rightarrow> m
                      | Some h \<Rightarrow> AList.update ''severity'' h m))
      else m)"

text \<open>
  The header that the loop assigns to one target field, and the header that the severity
  fallback finds, both as functions of the discovered headers.
\<close>

definition first_match ::
  "(string \<Rightarrow> string \<Rightarrow> string \<Rightarrow> bool) \<Rightarrow> string list \<Rightarrow> string \<times> string \<Rightarrow> string option" where
  "first_match matches headers f =
     (case find (matches (fst f) (snd f)) (own_keys (lower_map headers)) of
        None \<Rightarrow> None
      | Some possible \<Rightarrow>
          if possible = [] then None else map_of (lower_map headers) possible)"

definition fallback_match :: "string list \<Rightarrow> string option" where
  "fallback_match headers =
     (case find severity_like (own_keys (lower_map headers)) of
        None \<Rightarrow> None
      | Some candidate \<Rightarrow>
          if candidate = [] then None else map_of (lower_map headers) candidate)"

definition field_specs :: "(string \<times> string) list" where
  "field_specs = map (\<lambda>f. (field_key f, field_label f)) EDITABLE_FIELDS"

definition KNOWN_FIELDS :: "(string \<times> string) list" where
  "KNOWN_FIELDS = (''rule_code'', ''Rule Code'') # field_specs"

text \<open>The mapping of the upload page and of the rules table, from the discovered headers.\<close>

definition automap_page :: "string list \<Rightarrow> (string \<times> string) list" where
  "automap_page headers =
     (let lowerMap = lower_map headers
      in severity_fallback lowerMap (direct_map header_matches KNOWN_FIELDS lowerMap))"

definition automap_table :: "string list \<Rightarrow> (string \<times> string) list" where
  "automap_table headers =
     (let lowerMap = lower_map headers
      in severity_fallback lowerMap (direct_map header_matches_table field_specs lowerMap))"

section \<open>Importing a rules workbook\<close>

text \<open>
  A worksheet is what the spreadsheet library returns for it: its rows as objects
  (\<^verbatim>\<open>sheet_to_json\<close> with \<open>defval: ""\<close>; \<open>None\<close> when that call raises), whether it has a
  \<open>!ref\<close>, and its first row as an array. An uploaded file is the workbook that
  \<^verbatim>\<open>XLSX.read\<close> decodes from its buffer, or \<open>None\<close> when reading or decoding raises.
\<close>

record sheet =
  sh_json :: "raw_row list option"
  sh_ref :: bool
  sh_first_row :: "cell list"

record workbook =
  SheetNames :: "string list"
  Sheets :: "(string \<times> sheet) list"

definition own_entries :: "raw_row \<Rightarrow> raw_row" where
  "own_entries obj = map (\<lambda>k. (k, get_prop obj k)) (own_keys obj)"

definition clean_row :: "raw_row \<Rightarrow> raw_row" where
  "clean_row row = fold (\<lambda>(k, v) out. AList.update (cleanHeader k) v out) (own_entries row) []"

definition build_field :: "js_env \<Rightarrow> (string \<times> string) list \<Rightarrow> raw_row \<Rightarrow> field \<Rightarrow> cell" where
  "build_field env initialMap r f =
     (let val0 = (case map_of initialMap (field_key f) of
                    None \<Rightarrow> CUndef
                  | Some col \<Rightarrow> if col = [] then CUndef else get_prop r col);
          val1 = (if f = Severity then normalizeSeverity val0 else val0);
          val2 = (case (f, val1) of (Tags, CStr s) \<Rightarrow> CStrs (split_tags s) | _ \<Rightarrow> val1);
          val3 = (if f = TatDays
                  then (let n = to_number env val2 in if is_finite n then CNum n else CStr [])
                  else val2)
      in coalesce val3 (CStr []))"

text \<open>
  The rows built from the cleaned rows of the sheet: each draws a local identifier and is
  given a generated code, computed against the rows the table had when the import began.
\<close>

fun build_rows ::
  "js_env \<Rightarrow> (string \<times> string) list \<Rightarrow> EditableRow list \<Rightarrow> nat \<Rightarrow> nat \<Rightarrow> raw_row list
     \<Rightarrow> EditableRow list \<times> nat \<times> nat" where
  "build_rows env initialMap existing k counter [] = ([], k, counter)"
| "build_rows env initialMap existing k counter (r # rs) =
     (let out = fold (\<lambda>f out. set_field f (build_field env initialMap r f) out) EDITABLE_FIELDS
                  (blank_row (genLocalId env k));
          (code, counter') = generateRuleCode existing counter;
          (rest, k', counter'') = build_rows env initialMap existing (k + 1) counter' rs
      in (out\<lparr>rule_code := Some code\<rparr> # rest, k', counter''))"

definition fail_import :: "table_state \<Rightarrow> table_state" where
  "fail_import st =
     st\<lparr>logged := logged st @ [''import failed''],
        alerts := alerts st @ [''Failed to parse uploaded file. Ensure XLS/XLSX/CSV.'']\<rparr>"

text \<open>
  \<^verbatim>\<open>handleFile\<close> of the rules table. A workbook without sheets leaves \<open>sheet\<close> undefined, and
  reading \<open>sheet["!ref"]\<close> raises.
\<close>

definition handleFile ::
  "js_env \<Rightarrow> rules_draft storage_env \<Rightarrow> workbook option \<Rightarrow> table_state \<Rightarrow> table_state" where
  "handleFile env sto file st =
     (case file of
        None \<Rightarrow> fail_import st
      | Some wb \<Rightarrow>
     (case SheetNames wb of
        [] \<Rightarrow> fail_import st
      | first # _ \<Rightarrow>
     (case map_of (Sheets wb) first of
        None \<Rightarrow> fail_import st
      | Some sheet \<Rightarrow>
     (case sh_json sheet of
        None \<Rightarrow> fail_import st
      | Some json \<Rightarrow>
          (let hs0 = dedupe (case json of [] \<Rightarrow> [] | r0 # _ \<Rightarrow> map cleanHeader (own_keys r0));
               headers = (if hs0 = [] \<and> sh_ref sheet
                          then dedupe (map (cleanHeaderCell env) (sh_first_row sheet))
                          else hs0);
               cleaned = map clean_row json;
               initialMap = automap_table headers;
               (built, k', counter') =
                  build_rows env initialMap (rows st) (draws st) (counterRef st) cleaned;
               combined = rows st @ built;
               text = stringify sto \<lparr>d_headers = Some headers, d_rows = Some combined\<rparr>
           in st\<lparr>rawHeaders := (if headers \<noteq> [] then headers
                                 else (case cleaned of [] \<Rightarrow> [] | c # _ \<Rightarrow> own_keys c)),
                  rawRows := cleaned,
                  mapping := initialMap,
                  rows := combined,
                  draws := k',
                  counterRef := counter',
                  draft := (if quota_ok sto text then Some text else draft st),
                  savedDraftExists := (quota_ok sto text \<or> savedDraftExists st)\<rparr>)))))"

section \<open>Dates\<close>

text \<open>
  A canonical timestamp is the text \<^verbatim>\<open>toISOString\<close> gives for a time value; it is
  represented by that time value. A \<open>Date\<close> holds a time value or is invalid (\<open>None\<close>), and
  \<^verbatim>\<open>toISOString\<close> raises a \<open>RangeError\<close> on an invalid one.
\<close>

datatype timestamp = ISO int

definition time_clip :: "int \<Rightarrow> int option" where
  "time_clip t = (if \<bar>t\<bar> \<le> 8640000000000000 then Some t else None)"

definition toISOString :: "int option \<Rightarrow> js_error + timestamp" where
  "toISOString d = (case d of None \<Rightarrow> Inl RangeError | Some t \<Rightarrow> Inr (ISO t))"

text \<open>
  \<^verbatim>\<open>Date.UTC(year, month, date)\<close> on integers: the day number of the proleptic Gregorian
  calendar (months count from 0 and may overflow into the years), in milliseconds.
\<close>

definition make_day :: "int \<Rightarrow> int \<Rightarrow> int \<Rightarrow> int" where
  "make_day year month date =
     (let ym = year + month div 12;
          mn = month mod 12;
          y = (if mn < 2 then ym - 1 else ym);
          era = y div 400;
          yoe = y - era * 400;
          mp = (mn + 10) mod 12;
          doy = (153 * mp + 2) div 5;
          doe = yoe * 365 + yoe div 4 - yoe div 100 + doy
      in era * 146097 + doe - 719468 + date - 1)"

definition Date_UTC :: "int \<Rightarrow> int \<Rightarrow> int \<Rightarrow> int option" where
  "Date_UTC year month date =
     (let yr = (if 0 \<le> year \<and> year \<le> 99 then 1900 + year else year)
      in time_clip (make_day yr month date * 86400000))"

text \<open>\<open>s.padStart(2, "0")\<close>\<close>

definition pad2 :: "string \<Rightarrow> string" where
  "pad2 s = replicate (2 - length s) (CHR ''0'') @ s"

text \<open>
  \<^verbatim>\<open>normalizeDate\<close> of \<^verbatim>\<open>EventsVerified.tsx\<close>. The serial-date decoder of the library
  rejects a number that is not finite.
\<close>

text \<open>
  The text split on \<open>/\<close>, \<open>-\<close> or \<open>.\<close>: when it has three parts, the rearrangement into
  year, month and day that is parsed next (year first when the first part has four
  characters, day first otherwise).
\<close>

definition rearranged :: "string \<Rightarrow> string option" where
  "rearranged s =
     (case map trim (split_on (\<lambda>c. c \<in> set ''/-.'') s) of
        [a, b, c] \<Rightarrow>
          Some (if length a = 4 then a @ ''-'' @ pad2 b @ ''-'' @ pad2 c
                else c @ ''-'' @ pad2 b @ ''-'' @ pad2 a)
      | _ \<Rightarrow> None)"

definition date_from_parts :: "js_env \<Rightarrow> string \<Rightarrow> js_error + timestamp option" where
  "date_from_parts env s =
     (case rearranged s of
        None \<Rightarrow> Inr None
      | Some ymd \<Rightarrow>
          (case date_parse env ymd of
             None \<Rightarrow> Inr None
           | Some p \<Rightarrow> map_sum id Some (toISOString (time_clip p))))"

definition date_from_text :: "js_env \<Rightarrow> cell \<Rightarrow> js_error + timestamp option" where
  "date_from_text env v =
     (let s = trim (to_string env v)
      in case date_parse env s of
           Some parsed \<Rightarrow> map_sum id Some (toISOString (time_clip parsed))
         | None \<Rightarrow> date_from_parts env s)"

definition normalizeDate :: "js_env \<Rightarrow> cell \<Rightarrow> js_error + timestamp option" where
  "normalizeDate env v =
     (if \<not> truthy v \<and> v \<noteq> CNum (Fin 0) then Inr None
      else (case v of
              CDate (Some t) \<Rightarrow> map_sum id Some (toISOString (Some t))
            | CNum n \<Rightarrow>
                (case (case n of Fin x \<Rightarrow> parse_date_code env x | _ \<Rightarrow> None) of
                   Some (y, m, d) \<Rightarrow> map_sum id Some (toISOString (Date_UTC y (m - 1) d))
                 | None \<Rightarrow> date_from_text env v)
            | _ \<Rightarrow> date_from_text env v))"

section \<open>The events table (\<^verbatim>\<open>UploadEvents\<close> of \<^verbatim>\<open>EventsVerified.tsx\<close>)\<close>

datatype sheet_type = New | Old

datatype tier = Unmatched | Low | Matched

record EventRow =
  e_localId :: string
  e_saved :: "bool option"
  sheetType :: sheet_type
  sr_no :: cell
  company :: cell
  company_pan :: cell
  e_change_reported :: cell
  description :: cell
  event_date :: "timestamp option"
  identification_date :: "timestamp option"
  flag :: cell
  rbi_trigger :: cell
  matchedRule :: "EwsRule option"
  matchStatus :: tier
  score :: "real option"
  event_raw :: "raw_row option"

text \<open>
  The index \<open>fuseRef.current\<close>: absent while no rules are loaded; a search gives the
  candidates within the threshold of the index, best first, each with its distance (\<open>None\<close>
  when the search raises).
\<close>

record fuse_result =
  item :: EwsRule
  fr_score :: "real option"

type_synonym fuse = "(string \<Rightarrow> fuse_result list option) option"

subsection \<open>Mapping a sheet row to an event\<close>

text \<open>\<open>h.toLowerCase().replace(/\s+/g, "")\<close>\<close>

definition squash :: "string \<Rightarrow> string" where
  "squash h = filter (\<lambda>c. \<not> is_space c) (toLowerCase h)"

fun lookup :: "raw_row \<Rightarrow> string list \<Rightarrow> cell" where
  "lookup row [] = CUndef"
| "lookup row (k # ks) =
     (case find (\<lambda>h. squash h = squash k) (own_keys row) of
        None \<Rightarrow> lookup row ks
      | Some found \<Rightarrow> if found = [] then lookup row ks else get_prop row found)"

text \<open>
  The fuzzy match run on a new row: the rule, the tier and the score it ends with. A row
  starts unmatched, and stays so when the search is not run, raises, finds nothing or gives
  a candidate without a score.
\<close>

definition match_row :: "js_env \<Rightarrow> fuse \<Rightarrow> cell \<Rightarrow> EwsRule option \<times> tier \<times> real option" where
  "match_row env fz cr =
     (case fz of
        None \<Rightarrow> (None, Unmatched, None)
      | Some search \<Rightarrow>
          if truthy cr \<and> length (trim (to_string env cr)) > 1
          then (case search (to_string env cr) of
                  None \<Rightarrow> (None, Unmatched, None)
                | Some [] \<Rightarrow> (None, Unmatched, None)
                | Some (best # _) \<Rightarrow>
                    (case fr_score best of
                       None \<Rightarrow> (None, Unmatched, None)
                     | Some sc \<Rightarrow>
                         if sc < 0.15 then (Some (item best), Matched, Some sc)
                         else if sc < 0.35 then (Some (item best), Low, Some sc)
                         else (None, Unmatched, None)))
          else (None, Unmatched, None))"

definition genEventId :: "js_env \<Rightarrow> nat \<Rightarrow> string" where
  "genEventId env k = ''e_'' @ random_string env k"

definition mapRowToEvent ::
  "js_env \<Rightarrow> fuse \<Rightarrow> nat \<Rightarrow> raw_row \<Rightarrow> sheet_type \<Rightarrow> js_error + EventRow" where
  "mapRowToEvent env fz k row sheet =
     (let sr = coalesce (lookup row [''srno'', ''sno'', ''srno.'', ''sr no'', ''sr no.''])
                        (lookup row [''sr'', ''no'', ''s.no'']);
          comp = coalesce (lookup row [''nameofcompany'', ''company'', ''nameofcompany''])
                          (lookup row [''companyname'']);
          pan = coalesce (lookup row [''companypan'', ''pan'']) (CStr []);
          changeReported =
            coalesce (lookup row [''changereported'', ''change'', ''event'', ''eventname''])
                     (CStr []);
          desc = coalesce (lookup row [''description'', ''details'', ''desc'']) (CStr []);
          eventDateRaw =
            coalesce (lookup row [''eventdate'', ''eventdate '', ''event date'', ''date''])
                     (CStr []);
          identDateRaw =
            coalesce (lookup row [''eventidentificationdate'', ''identificationdate'',
                                  ''event identification date'', ''identdate''])
                     (CStr []);
          flg = coalesce (lookup row [''flag'', ''status'', ''rfi'', ''color'']) (CStr []);
          rbiTrigger =
            coalesce (lookup row [''rbitrigger'', ''rbi trigger'', ''rbi'', ''trigger''])
                     (CStr [])
      in case normalizeDate env eventDateRaw of
           Inl e \<Rightarrow> Inl e
         | Inr ed \<Rightarrow>
        (case normalizeDate env identDateRaw of
           Inl e \<Rightarrow> Inl e
         | Inr idd \<Rightarrow>
            (let cr = coalesce changeReported (CStr []);
                 (rule, status, sc) = match_row env fz cr
             in Inr \<lparr>e_localId = genEventId env k,
                     e_saved = None,
                     sheetType = sheet,
                     sr_no = coalesce sr (CStr []),
                     company = coalesce comp (CStr []),
                     company_pan = coalesce pan (CStr []),
                     e_change_reported = cr,
                     description = coalesce desc (CStr []),
                     event_date = ed,
                     identification_date = idd,
                     flag = (if truthy (coalesce flg (CStr []))
                             then CStr (trim (to_string env flg)) else CStr []),
                     rbi_trigger = coalesce rbiTrigger (CStr []),
                     matchedRule = rule,
                     matchStatus = status,
                     score = sc,
                     event_raw = Some row\<rparr>)))"

text \<open>
  \<open>rows.map((r) => mapRowToEvent(r, sheet))\<close>: the events, or the error of the first row
  that raises, and the number of draws of the random source afterwards.
\<close>

fun map_rows ::
  "js_env \<Rightarrow> fuse \<Rightarrow> sheet_type \<Rightarrow> nat \<Rightarrow> raw_row list \<Rightarrow> (js_error + EventRow list) \<times> nat" where
  "map_rows env fz sheet k [] = (Inr [], k)"
| "map_rows env fz sheet k (r # rs) =
     (case mapRowToEvent env fz k r sheet of
        Inl e \<Rightarrow> (Inl e, k + 1)
      | Inr ev \<Rightarrow>
          (case map_rows env fz sheet (k + 1) rs of
             (Inl e, k') \<Rightarrow> (Inl e, k')
           | (Inr evs, k') \<Rightarrow> (Inr (ev # evs), k')))"

subsection \<open>State, requests and payloads\<close>

record event_payload =
  p_event_type :: sheet_type
  p_company :: cell
  p_event_name :: cell
  p_company_pan :: cell
  p_flag :: cell
  p_rbi_trigger :: cell
  p_event_date :: "timestamp option"
  p_identification_date :: "timestamp option"
  p_event_raw :: raw_row

record AlertPayload =
  a_company :: cell
  a_event_name :: cell
  a_event_raw :: raw_row
  a_matched_rule :: "EwsRule option"
  a_severity :: cell
  a_tat_days :: cell
  a_status :: string
  a_created_at :: timestamp

datatype events_call =
    PostEvents "event_payload list"
  | PostAlerts "AlertPayload list"

text \<open>
  The remote store for events: whether a request succeeds, and how many records its
  response lists (\<open>Array.isArray(res.data) ? res.data : [res.data]\<close>).
\<close>

record events_server =
  e_succeeds :: "events_call list \<Rightarrow> events_call \<Rightarrow> bool"
  created_count :: "events_call list \<Rightarrow> events_call \<Rightarrow> nat"

record events_draft =
  d_new :: "EventRow list option"
  d_old :: "EventRow list option"

record events_state =
  newRows :: "EventRow list"
  oldRows :: "EventRow list"
  rawHeadersNew :: "string list"
  rawHeadersOld :: "string list"
  page :: nat
  importResult :: "string option"
  e_draws :: nat
  e_ticks :: nat
  e_draft :: "string option"
  e_calls :: "events_call list"
  e_alerts :: "string list"
  e_logged :: "string list"

subsection \<open>Importing an events workbook\<close>

definition fail_upload :: "nat \<Rightarrow> events_state \<Rightarrow> events_state" where
  "fail_upload k st =
     st\<lparr>e_draws := k,
        e_logged := e_logged st @ [''upload failed''],
        e_alerts := e_alerts st @ [''Failed to parse uploaded file. Ensure XLS/XLSX/CSV.'']\<rparr>"

text \<open>\<open>sheet ? XLSX.utils.sheet_to_json(sheet, { defval: "" }) : []\<close>\<close>

definition sheet_rows :: "sheet option \<Rightarrow> raw_row list option" where
  "sheet_rows sh = (case sh of None \<Rightarrow> Some [] | Some s \<Rightarrow> sh_json s)"

definition first_keys :: "raw_row list \<Rightarrow> string list" where
  "first_keys json = (case json of [] \<Rightarrow> [] | r # _ \<Rightarrow> own_keys r)"

definition store_draft :: "'d storage_env \<Rightarrow> 'd \<Rightarrow> string option \<Rightarrow> string option" where
  "store_draft sto d old = (if quota_ok sto (stringify sto d) then Some (stringify sto d) else old)"

text \<open>
  The second half of \<^verbatim>\<open>handleFile\<close>, for a workbook with a second sheet; it runs after the
  rows of the first sheet have been handed to \<open>setNewRows\<close>.
\<close>

definition import_old ::
  "js_env \<Rightarrow> events_draft storage_env \<Rightarrow> fuse \<Rightarrow> workbook \<Rightarrow> EventRow list \<Rightarrow> events_state
     \<Rightarrow> events_state" where
  "import_old env sto fz wb newMapped st =
     (case sheet_rows (map_of (Sheets wb) (SheetNames wb ! 1)) of
        None \<Rightarrow> fail_upload (e_draws st) st
      | Some jsonOld \<Rightarrow>
          (case map_rows env fz Old (e_draws st) jsonOld of
             (Inl e, k) \<Rightarrow> fail_upload k st
           | (Inr oldMapped, k) \<Rightarrow>
               (let mergedOld = oldRows st @ oldMapped
                in st\<lparr>rawHeadersOld := first_keys jsonOld,
                       oldRows := mergedOld,
                       e_draws := k,
                       e_draft := store_draft sto \<lparr>d_new = Some newMapped, d_old = Some mergedOld\<rparr>
                                    (e_draft st),
                       page := 1,
                       importResult := None\<rparr>)))"

definition handleEventsFile ::
  "js_env \<Rightarrow> events_draft storage_env \<Rightarrow> fuse \<Rightarrow> workbook option \<Rightarrow> events_state
     \<Rightarrow> events_state" where
  "handleEventsFile env sto fz file st =
     (case file of
        None \<Rightarrow> fail_upload (e_draws st) st
      | Some wb \<Rightarrow>
     (case sheet_rows (case SheetNames wb of [] \<Rightarrow> None | n # _ \<Rightarrow> map_of (Sheets wb) n) of
        None \<Rightarrow> fail_upload (e_draws st) st
      | Some jsonNew \<Rightarrow>
     (case map_rows env fz New (e_draws st) jsonNew of
        (Inl e, k) \<Rightarrow> fail_upload k st
      | (Inr newMapped, k) \<Rightarrow>
          (let merged = newRows st @ newMapped;
               st1 = st\<lparr>rawHeadersNew := first_keys jsonNew,
                         newRows := merged,
                         e_draws := k,
                         e_draft := store_draft sto \<lparr>d_new = Some merged, d_old = None\<rparr>
                                      (e_draft st)\<rparr>
           in if length (SheetNames wb) > 1
              then import_old env sto fz wb newMapped st1
              else st1\<lparr>page := 1, importResult := None\<rparr>))))"

subsection \<open>Saving events and projecting alerts\<close>

definition event_payload_of :: "EventRow \<Rightarrow> event_payload" where
  "event_payload_of r =
     \<lparr>p_event_type = sheetType r,
      p_company = or_else (company r) (CStr []),
      p_event_name = or_else (e_change_reported r) (CStr []),
      p_company_pan = or_else (company_pan r) (CStr []),
      p_flag = or_else (flag r) (CStr []),
      p_rbi_trigger = or_else (rbi_trigger r) (CStr []),
      p_event_date = event_date r,
      p_identification_date = identification_date r,
      p_event_raw = (case event_raw r of None \<Rightarrow> [] | Some raw \<Rightarrow> raw)\<rparr>"

text \<open>The alert of a row; \<open>now\<close> is the reading of the clock when it is built.\<close>

definition alert_of :: "int \<Rightarrow> EventRow \<Rightarrow> AlertPayload" where
  "alert_of now r =
     \<lparr>a_company = or_else (company r) (CStr []),
      a_event_name = or_else (e_change_reported r) (CStr []),
      a_event_raw = (case event_raw r of None \<Rightarrow> [] | Some raw \<Rightarrow> raw),
      a_matched_rule = matchedRule r,
      a_severity = (case matchedRule r of None \<Rightarrow> CUndef | Some m \<Rightarrow> severity m),
      a_tat_days = (case matchedRule r of None \<Rightarrow> CUndef | Some m \<Rightarrow> tat_days m),
      a_status = ''Pending'',
      a_created_at = ISO now\<rparr>"

text \<open>
  \<open>newRows.filter((r) => r.matchedRule).map(...)\<close>: the alerts of \<^verbatim>\<open>saveAllToServer\<close>, built
  from the rows of the first sheet only; the \<open>i\<close>-th alert reads the clock once.
\<close>

definition matchedAlerts :: "js_env \<Rightarrow> nat \<Rightarrow> EventRow list \<Rightarrow> AlertPayload list" where
  "matchedAlerts env k rs =
     map (\<lambda>(i, r). alert_of (clock env (k + i)) r)
       (enumerate 0 (filter (\<lambda>r. matchedRule r \<noteq> None) rs))"

definition result_text :: "nat \<Rightarrow> nat \<Rightarrow> string" where
  "result_text created createdAlerts =
     ''Saved '' @ show_nat created @ '' events. Created '' @ show_nat createdAlerts @
     '' alerts from matched rules.''"

definition post_alerts ::
  "events_server \<Rightarrow> AlertPayload list \<Rightarrow> events_state \<Rightarrow> events_state \<times> nat" where
  "post_alerts srv matched st =
     (if matched = [] then (st, 0)
      else (let call = PostAlerts matched;
                st1 = st\<lparr>e_calls := e_calls st @ [call]\<rparr>
            in if e_succeeds srv (e_calls st) call
               then (st1, created_count srv (e_calls st) call)
               else (st1\<lparr>e_logged := e_logged st @ [''Failed to create alerts:'']\<rparr>, 0)))"

definition saveAllToServer ::
  "js_env \<Rightarrow> events_server \<Rightarrow> bool \<Rightarrow> events_state \<Rightarrow> events_state" where
  "saveAllToServer env srv confirmed st =
     (let allRows = newRows st @ oldRows st;
          bad = list_ex (\<lambda>r. \<not> truthy (company r) \<or> \<not> truthy (e_change_reported r)) allRows
      in if bad \<and> \<not> confirmed then st
         else (let call = PostEvents (map event_payload_of allRows);
                   st1 = st\<lparr>e_calls := e_calls st @ [call], importResult := None\<rparr>
               in if \<not> e_succeeds srv (e_calls st) call
                  then st1\<lparr>e_logged := e_logged st @ [''save failed''],
                           e_alerts := e_alerts st @ [''Failed to save events to server.'']\<rparr>
                  else (let created = created_count srv (e_calls st) call;
                            matched = matchedAlerts env (e_ticks st) (newRows st);
                            st2 = st1\<lparr>newRows := map (\<lambda>r. r\<lparr>e_saved := Some True\<rparr>) (newRows st),
                                      oldRows := map (\<lambda>r. r\<lparr>e_saved := Some True\<rparr>) (oldRows st),
                                      e_ticks := e_ticks st + length matched\<rparr>;
                            (st3, createdAlerts) = post_alerts srv matched st2
                        in st3\<lparr>importResult := Some (result_text created createdAlerts),
                               e_alerts := e_alerts st3 @ [''Save complete.'']\<rparr>)))"

subsection \<open>Drafts of the events table\<close>

definition regenerate_events :: "js_env \<Rightarrow> nat \<Rightarrow> EventRow list \<Rightarrow> EventRow list" where
  "regenerate_events env k rs =
     map (\<lambda>(i, r). r\<lparr>e_localId := genEventId env (k + i)\<rparr>) (enumerate 0 rs)"

definition saveDraftLocal :: "events_draft storage_env \<Rightarrow> events_state \<Rightarrow> events_state" where
  "saveDraftLocal sto st =
     (let text = stringify sto \<lparr>d_new = Some (newRows st), d_old = Some (oldRows st)\<rparr>
      in if quota_ok sto text
         then st\<lparr>e_draft := Some text, e_alerts := e_alerts st @ [''Draft saved locally.'']\<rparr>
         else st\<lparr>e_logged := e_logged st @ [''setItem failed''],
                 e_alerts := e_alerts st @ [''Failed to save draft.'']\<rparr>)"

definition loadEventsDraft ::
  "js_env \<Rightarrow> events_draft storage_env \<Rightarrow> events_state \<Rightarrow> events_state" where
  "loadEventsDraft env sto st =
     (case e_draft st of
        None \<Rightarrow> st\<lparr>e_alerts := e_alerts st @ [''No draft present.'']\<rparr>
      | Some d \<Rightarrow>
          if d = [] then st\<lparr>e_alerts := e_alerts st @ [''No draft present.'']\<rparr>
          else (case parse_json sto d of
                  None \<Rightarrow> st\<lparr>e_logged := e_logged st @ [''JSON.parse failed''],
                              e_alerts := e_alerts st @ [''Failed to load draft.'']\<rparr>
                | Some parsed \<Rightarrow>
                    (let ns = (case d_new parsed of None \<Rightarrow> [] | Some r \<Rightarrow> r);
                         os = (case d_old parsed of None \<Rightarrow> [] | Some r \<Rightarrow> r)
                     in st\<lparr>newRows := regenerate_events env (e_draws st) ns,
                           oldRows := regenerate_events env (e_draws st + length ns) os,
                           e_draws := e_draws st + length ns + length os,
                           importResult := Some ''Draft loaded.''\<rparr>)))"

section \<open>What the libraries guarantee\<close>

text \<open>
  The serial-date decoder accepts the serial numbers from 0 to 2958465 only, so the date it
  gives has a year from 1900 to 9999, a month from 1 to 12 and a day from 0 to 31 (serial 0
  is day 0 of January 1900). \<^verbatim>\<open>Date.parse\<close> gives \<open>NaN\<close> or a time value, which lies within
  8.64e15 milliseconds of the epoch.
\<close>

definition decoder_contract :: "js_env \<Rightarrow> bool" where
  "decoder_contract env =
     (\<forall>x y m d. parse_date_code env x = Some (y, m, d) \<longrightarrow>
        1900 \<le> y \<and> y \<le> 9999 \<and> 1 \<le> m \<and> m \<le> 12 \<and> 0 \<le> d \<and> d \<le> 31)"

definition parser_contract :: "js_env \<Rightarrow> bool" where
  "parser_contract env =
     (\<forall>s t. date_parse env s = Some t \<longrightarrow> \<bar>t\<bar> \<le> 8640000000000000)"

section \<open>Sample inputs\<close>

text \<open>
  A browser and library that answer as the real ones do on the inputs used in the examples
  below: the serial date 45000 is 15 March 2023, and the text \<open>2024-01-15\<close> parses to
  midnight UTC of that day.
\<close>

definition sample_env :: js_env where
  "sample_env =
     \<lparr>number_to_string = (\<lambda>n. case n of Fin x \<Rightarrow> (if x = 45000 then ''45000'' else ''0'')
                                | NaN \<Rightarrow> ''NaN'' | PosInf \<Rightarrow> ''Infinity'' | NegInf \<Rightarrow> ''-Infinity''),
      string_to_number = (\<lambda>s. if s = [] then Fin 0
                               else if list_all is_digit s then Fin (real (num_of_digits s))
                               else NaN),
      date_to_string = (\<lambda>t. ''Thu Jan 01 1970''),
      date_parse = (\<lambda>s. if s = ''2024-01-15'' then Some 1705276800000 else None),
      parse_date_code = (\<lambda>x. if x = 45000 then Some (2023, 3, 15) else None),
      random_string = (\<lambda>k. ''r'' @ show_nat k),
      clock = (\<lambda>k. 1700000000000 + int k)\<rparr>"

definition sample_rule :: EwsRule where
  "sample_rule =
     \<lparr>rule_code = Some ''R-1001'',
      change_reported = CStr ''Resignation of Statutory Auditor'',
      condition = CStr [],
      severity = CStr ''High'',
      primary_action = CStr ''Review'',
      secondary_action = CStr [],
      tat_days = CNum (Fin 7),
      assigned_team = CStr ''Credit'',
      tags = CStrs [''audit'']\<rparr>"

text \<open>An index that finds the sample rule at distance 0.2 for one query and nothing else.\<close>

definition sample_fuse :: fuse where
  "sample_fuse =
     Some (\<lambda>q. if q = ''resignation of auditor''
               then Some [\<lparr>item = sample_rule, fr_score = Some 0.2\<rparr>]
               else Some [])"

definition sample_sheet_row :: raw_row where
  "sample_sheet_row =
     [(''Name of Company'', CStr ''Acme Ltd''),
      (''Change Reported'', CStr ''resignation of auditor''),
      (''Event Date'', CNum (Fin 45000)),
      (''Flag'', CStr '' red '')]"

text \<open>
  A storage that holds one draft: it serializes that draft to the given text, parses the
  text back to it, and accepts texts of up to 200 characters.
\<close>

definition single_slot :: "string \<Rightarrow> 'd \<Rightarrow> 'd storage_env" where
  "single_slot text d =
     \<lparr>stringify = (\<lambda>x. if x = d then text else ''null''),
      parse_json = (\<lambda>s. if s = text then Some d else None),
      quota_ok = (\<lambda>s. length s \<le> 200)\<rparr>"

definition sample_table_row :: EditableRow where
  "sample_table_row =
     \<lparr>rule_code = Some ''R-1001'',
      change_reported = CStr ''Resignation of Statutory Auditor'',
      condition = CStr [],
      severity = CStr ''High'',
      primary_action = CStr ''Review'',
      secondary_action = CStr [],
      tat_days = CNum (Fin 7),
      assigned_team = CStr ''Credit'',
      tags = CStrs [''audit''],
      srv_id = CStr ''65a1f0'',
      localId = ''loc_k3x9q2a'',
      errors = None\<rparr>"

definition sample_local_row :: EditableRow where
  "sample_local_row =
     \<lparr>rule_code = Some ''R-1002'',
      change_reported = CStr ''Delay in results'',
      condition = CStr [],
      severity = CStr ''Medium'',
      primary_action = CStr [],
      secondary_action = CStr [],
      tat_days = CStr [],
      assigned_team = CStr [],
      tags = CStrs [],
      srv_id = CUndef,
      localId = ''loc_p7m2d1z'',
      errors = None\<rparr>"

definition sample_table :: table_state where
  "sample_table =
     \<lparr>rows = [sample_table_row, sample_local_row],
      rawHeaders = [''Change Reported'', ''Severity''],
      rawRows = [],
      mapping = [],
      backendRules = [],
      importedCount = None,
      savedDraftExists = False,
      counterRef = 1003,
      draws = 2,
      draft = None,
      calls = [],
      alerts = [],
      logged = []\<rparr>"

definition sample_event :: EventRow where
  "sample_event =
     \<lparr>e_localId = ''e_r0'', e_saved = None, sheetType = New, sr_no = CStr [],
      company = CStr ''Acme Ltd'', company_pan = CStr [],
      e_change_reported = CStr ''resignation of auditor'', description = CStr [],
      event_date = Some (ISO 1678838400000), identification_date = None,
      flag = CStr ''red'', rbi_trigger = CStr [],
      matchedRule = Some sample_rule, matchStatus = Low, score = Some 0.2,
      event_raw = Some sample_sheet_row\<rparr>"

definition sample_events :: events_state where
  "sample_events =
     \<lparr>newRows = [sample_event],
      oldRows = [],
      rawHeadersNew = [],
      rawHeadersOld = [],
      page = 1,
      importResult = None,
      e_draws = 1,
      e_ticks = 0,
      e_draft = None,
      e_calls = [],
      e_alerts = [],
      e_logged = []\<rparr>"

definition sample_batch :: table_state where
  "sample_batch =
     sample_table
       \<lparr>rows := [sample_table_row, sample_local_row,
                 sample_local_row\<lparr>rule_code := Some ''R-1003'', localId := ''loc_q1w2e3r''\<rparr>]\<rparr>"

text \<open>A store whose second request fails, and whose catalog is empty.\<close>

definition flaky_server :: rules_server where
  "flaky_server =
     \<lparr>succeeds = (\<lambda>before c. length before \<noteq> 1),
      rules_body = (\<lambda>before. BArray [])\<rparr>"

text \<open>A store for events that accepts every request and answers with one record per item.\<close>

definition accepting_server :: events_server where
  "accepting_server =
     \<lparr>e_succeeds = (\<lambda>before c. True),
      created_count = (\<lambda>before c. case c of PostEvents xs \<Rightarrow> length xs
                                      | PostAlerts xs \<Rightarrow> length xs)\<rparr>"

text \<open>The sample event as a row of the second sheet, alone in the table.\<close>

definition sample_old_events :: events_state where
  "sample_old_events =
     sample_events\<lparr>newRows := [], oldRows := [sample_event\<lparr>sheetType := Old\<rparr>]\<rparr>"

text \<open>A store that accepts every request of the rules table and holds one rule.\<close>

definition sample_srv_rule :: srv_rule where
  "sample_srv_rule =
     \<lparr>rule_code = Some ''R-1005'',
      change_reported = CStr ''Default on debt'',
      condition = CStr [],
      severity = CStr ''h'',
      primary_action = CStr ''Escalate'',
      secondary_action = CStr [],
      tat_days = CNum (Fin 3),
      assigned_team = CStr ''Risk'',
      tags = CStr ''debt, default'',
      sv_uid = CStr ''65b2c7'',
      sv_id = CUndef,
      sv_ruleCode = None,
      sv_code = None\<rparr>"

definition one_rule_server :: rules_server where
  "one_rule_server =
     \<lparr>succeeds = (\<lambda>before c. True),
      rules_body = (\<lambda>before. BArray [sample_srv_rule])\<rparr>"

section \<open>Uploads that cannot be decoded\<close>

text \<open>
  For the rules table: the buffer is not a workbook, the workbook has no first sheet, or the
  conversion of the first sheet to rows raises. For the events table, where a missing first
  sheet counts as an empty one: the buffer is not a workbook, or the conversion of the first
  sheet raises.
\<close>

definition undecodable :: "workbook option \<Rightarrow> bool" where
  "undecodable file =
     (case file of
        None \<Rightarrow> True
      | Some wb \<Rightarrow>
          (case SheetNames wb of
             [] \<Rightarrow> True
           | first # _ \<Rightarrow>
               (case map_of (Sheets wb) first of
                  None \<Rightarrow> True
                | Some sheet \<Rightarrow> sh_json sheet = None)))"

definition first_sheet_unreadable :: "workbook option \<Rightarrow> bool" where
  "first_sheet_unreadable file =
     (case file of
        None \<Rightarrow> True
      | Some wb \<Rightarrow>
          sheet_rows (case SheetNames wb of [] \<Rightarrow> None | n # _ \<Rightarrow> map_of (Sheets wb) n) = None)"

text \<open>
  Sample workbooks: one whose only sheet cannot be converted, and one with a good first
  sheet and a second sheet that cannot be converted. A decoder that breaks its contract
  (it gives a year beyond the range of dates) makes \<^verbatim>\<open>normalizeDate\<close> raise.
\<close>

definition unreadable_workbook :: workbook where
  "unreadable_workbook =
     \<lparr>SheetNames = [''Sheet1''],
      Sheets = [(''Sheet1'', \<lparr>sh_json = None, sh_ref = True, sh_first_row = []\<rparr>)]\<rparr>"

definition half_readable_workbook :: workbook where
  "half_readable_workbook =
     \<lparr>SheetNames = [''New'', ''Old''],
      Sheets = [(''New'', \<lparr>sh_json = Some [sample_sheet_row], sh_ref = True, sh_first_row = []\<rparr>),
                (''Old'', \<lparr>sh_json = None, sh_ref = True, sh_first_row = []\<rparr>)]\<rparr>"

definition overflow_env :: js_env where
  "overflow_env = sample_env\<lparr>parse_date_code := (\<lambda>x. Some (300000, 1, 1))\<rparr>"

definition plain_rules_storage :: "rules_draft storage_env" where
  "plain_rules_storage = single_slot ''{}'' \<lparr>d_headers = None, d_rows = None\<rparr>"

definition plain_events_storage :: "events_draft storage_env" where
  "plain_events_storage = single_slot ''{}'' \<lparr>d_new = None, d_old = None\<rparr>"

chapter \<open>Properties\<close>

section \<open>Auxiliary facts\<close>

subsection \<open>Case folding\<close>






subsection \<open>Decimal numerals\<close>















section \<open>Severity normalization (C9)\<close>



section \<open>Locally generated rule codes (C6)\<close>






section \<open>Confidence tiers of imported events (C1)\<close>

subsection \<open>Trimming\<close>







subsection \<open>The match fields of an imported event\<close>






section \<open>Date normalization (C2)\<close>

lemma div_between:
  fixes a :: int
  assumes "lo \<le> a" "a \<le> hi" "0 < b"
  shows "lo div b \<le> a div b \<and> a div b \<le> hi div b"
  using assms by (simp add: zdiv_mono1)

lemma make_day_bounds:
  assumes "1900 \<le> y" "y \<le> 9999" "0 \<le> m" "m \<le> 11" "0 \<le> d" "d \<le> 31"
  shows "- 100000000 \<le> make_day y m d \<and> make_day y m d \<le> 100000000"
proof -
  from assms have mdiv: "m div 12 = 0" and mmod: "m mod 12 = m" by simp_all
  define yy where "yy = (if m < 2 then y - 1 else y)"
  define era where "era = yy div 400"
  define yoe where "yoe = yy - era * 400"
  define mp where "mp = (m + 10) mod 12"
  define doy where "doy = (153 * mp + 2) div 5"
  have yyb: "1899 \<le> yy" "yy \<le> 9999" using assms by (simp_all add: yy_def)
  have erab: "4 \<le> era" "era \<le> 24"
    using div_between [of 1899 yy 9999 400] yyb by (simp_all add: era_def)
  have yoe_mod: "yoe = yy mod 400"
    by (simp add: yoe_def era_def minus_div_mult_eq_mod)
  have yoeb: "0 \<le> yoe" "yoe \<le> 399" by (simp_all add: yoe_mod)
  have mpb: "0 \<le> mp" "mp \<le> 11" by (simp_all add: mp_def)
  have doyb: "0 \<le> doy" "doy \<le> 337"
    using div_between [of 2 "153 * mp + 2" 1685 5] mpb by (simp_all add: doy_def)
  have q4: "0 \<le> yoe div 4" "yoe div 4 \<le> 99"
    using div_between [of 0 yoe 399 4] yoeb by simp_all
  have q100: "0 \<le> yoe div 100" "yoe div 100 \<le> 3"
    using div_between [of 0 yoe 399 100] yoeb by simp_all
  have eq: "make_day y m d =
      era * 146097 + (yoe * 365 + yoe div 4 - yoe div 100 + doy) - 719468 + d - 1"
    by (simp add: make_day_def Let_def mdiv mmod yy_def era_def yoe_def mp_def doy_def)
  show ?thesis
    unfolding eq using erab yoeb doyb q4 q100 assms(5,6) by linarith
qed

lemma Date_UTC_valid:
  assumes "1900 \<le> y" "y \<le> 9999" "1 \<le> m" "m \<le> 12" "0 \<le> d" "d \<le> 31"
  shows "\<exists>t. Date_UTC y (m - 1) d = Some t"
proof -
  from assms have "- 100000000 \<le> make_day y (m - 1) d \<and> make_day y (m - 1) d \<le> 100000000"
    by (intro make_day_bounds) simp_all
  then have "\<bar>make_day y (m - 1) d * 86400000\<bar> \<le> 8640000000000000"
    by (simp add: abs_le_iff)
  with assms(1) show ?thesis
    by (simp add: Date_UTC_def Let_def time_clip_def)
qed


lemma parsed_timestamp:
  assumes "parser_contract env" "date_parse env s = Some p"
  shows "map_sum id Some (toISOString (time_clip p)) = Inr (Some (ISO p))"
proof -
  from assms have "\<bar>p\<bar> \<le> 8640000000000000" by (auto simp add: parser_contract_def)
  then show ?thesis by (simp add: toISOString_def time_clip_def)
qed

lemma date_from_parts_total:
  assumes "parser_contract env"
  shows "date_from_parts env s = Inr None \<or> (\<exists>t. date_from_parts env s = Inr (Some (ISO t)))"
proof (cases "rearranged s")
  case None
  then show ?thesis by (simp add: date_from_parts_def)
next
  case (Some r)
  then show ?thesis
    using parsed_timestamp [OF assms, of r]
    by (cases "date_parse env r") (simp_all add: date_from_parts_def)
qed

lemma date_from_text_total:
  assumes "parser_contract env"
  shows "date_from_text env v = Inr None \<or> (\<exists>t. date_from_text env v = Inr (Some (ISO t)))"
proof (cases "date_parse env (trim (to_string env v))")
  case None
  with date_from_parts_total [OF assms] show ?thesis
    by (simp add: date_from_text_def Let_def)
next
  case (Some p)
  with parsed_timestamp [OF assms Some] show ?thesis
    by (simp add: date_from_text_def Let_def)
qed

lemma date_from_text_rejected:
  assumes "date_parse env (trim (to_string env v)) = None"
    and "\<forall>r. rearranged (trim (to_string env v)) = Some r \<longrightarrow> date_parse env r = None"
  shows "date_from_text env v = Inr None"
  using assms
  by (cases "rearranged (trim (to_string env v))")
     (simp_all add: date_from_text_def date_from_parts_def Let_def)

text \<open>
  Claim C2. With a serial-date decoder and a date parser that keep to their contracts,
  \<^verbatim>\<open>normalizeDate\<close> returns for every cell value either a timestamp or \<open>null\<close> and never
  raises. A value that is no valid date object, that the decoder rejects (when it is a
  number) and whose text the parser rejects, as it stands and rearranged into year, month
  and day, gives \<open>null\<close>.
\<close>

theorem normalizeDate_total:
  assumes dec: "decoder_contract env" and par: "parser_contract env"
  shows "(normalizeDate env v = Inr None \<or> (\<exists>t. normalizeDate env v = Inr (Some (ISO t)))) \<and>
         ((\<forall>t. v \<noteq> CDate (Some t)) \<and>
          (\<forall>x. v = CNum (Fin x) \<longrightarrow> parse_date_code env x = None) \<and>
          date_parse env (trim (to_string env v)) = None \<and>
          (\<forall>r. rearranged (trim (to_string env v)) = Some r \<longrightarrow> date_parse env r = None)
            \<longrightarrow> normalizeDate env v = Inr None)"
proof
  note tx = date_from_text_total [OF par, of v]
  show "normalizeDate env v = Inr None \<or> (\<exists>t. normalizeDate env v = Inr (Some (ISO t)))"
  proof (cases "\<not> truthy v \<and> v \<noteq> CNum (Fin 0)")
    case True
    then show ?thesis by (simp add: normalizeDate_def)
  next
    case False
    show ?thesis
    proof (cases v)
      case (CDate d)
      with False tx show ?thesis
        by (cases d) (simp_all add: normalizeDate_def toISOString_def)
    next
      case (CNum n)
      show ?thesis
      proof (cases "case n of Fin x \<Rightarrow> parse_date_code env x | _ \<Rightarrow> None")
        case None
        with False CNum tx show ?thesis by (simp add: normalizeDate_def)
      next
        case (Some ymd)
        obtain y m d where ymd: "ymd = (y, m, d)" by (cases ymd)
        from Some ymd obtain x where "parse_date_code env x = Some (y, m, d)"
          by (cases n) simp_all
        with dec have "1900 \<le> y \<and> y \<le> 9999 \<and> 1 \<le> m \<and> m \<le> 12 \<and> 0 \<le> d \<and> d \<le> 31"
          unfolding decoder_contract_def by blast
        then obtain t where "Date_UTC y (m - 1) d = Some t"
          using Date_UTC_valid [of y m d] by blast
        with False CNum Some ymd show ?thesis
          by (simp add: normalizeDate_def toISOString_def)
      qed
    qed (use False tx in \<open>simp_all add: normalizeDate_def\<close>)
  qed
next
  show "(\<forall>t. v \<noteq> CDate (Some t)) \<and>
          (\<forall>x. v = CNum (Fin x) \<longrightarrow> parse_date_code env x = None) \<and>
          date_parse env (trim (to_string env v)) = None \<and>
          (\<forall>r. rearranged (trim (to_string env v)) = Some r \<longrightarrow> date_parse env r = None)
            \<longrightarrow> normalizeDate env v = Inr None"
  proof
    assume h: "(\<forall>t. v \<noteq> CDate (Some t)) \<and>
          (\<forall>x. v = CNum (Fin x) \<longrightarrow> parse_date_code env x = None) \<and>
          date_parse env (trim (to_string env v)) = None \<and>
          (\<forall>r. rearranged (trim (to_string env v)) = Some r \<longrightarrow> date_parse env r = None)"
    then have rej: "date_from_text env v = Inr None"
      using date_from_text_rejected [of env v] by blast
    show "normalizeDate env v = Inr None"
    proof (cases v)
      case (CDate d)
      with h rej show ?thesis by (cases d) (simp_all add: normalizeDate_def)
    next
      case (CNum n)
      with h rej show ?thesis by (cases n) (simp_all add: normalizeDate_def)
    qed (use rej in \<open>auto simp add: normalizeDate_def\<close>)
  qed
qed

theorem normalizeDate_total_witness:
  "decoder_contract sample_env \<and> parser_contract sample_env \<and>
   normalizeDate sample_env (CNum (Fin 45000)) = Inr (Some (ISO 1678838400000)) \<and>
   normalizeDate sample_env (CStr ''15/01/2024'') = Inr (Some (ISO 1705276800000)) \<and>
   normalizeDate sample_env (CStr ''31-31-2024'') = Inr None"
proof -
  have dec: "decoder_contract sample_env"
    by (simp add: decoder_contract_def sample_env_def)
  have par: "parser_contract sample_env"
    by (simp add: parser_contract_def sample_env_def)
  note total = normalizeDate_total [OF dec par]
  have e1: "normalizeDate sample_env (CNum (Fin 45000)) = Inr (Some (ISO 1678838400000))"
    by code_simp
  have e2: "normalizeDate sample_env (CStr ''15/01/2024'') = Inr (Some (ISO 1705276800000))"
    by code_simp
  have r1: "trim (to_string sample_env (CStr ''31-31-2024'')) = ''31-31-2024''"
    by code_simp
  have r2: "rearranged ''31-31-2024'' = Some ''2024-31-31''"
    by code_simp
  have rej: "(\<forall>t. CStr ''31-31-2024'' \<noteq> CDate (Some t)) \<and>
          (\<forall>x. CStr ''31-31-2024'' = CNum (Fin x) \<longrightarrow> parse_date_code sample_env x = None) \<and>
          date_parse sample_env (trim (to_string sample_env (CStr ''31-31-2024''))) = None \<and>
          (\<forall>r. rearranged (trim (to_string sample_env (CStr ''31-31-2024''))) = Some r
             \<longrightarrow> date_parse sample_env r = None)"
    unfolding r1 r2 by (simp add: sample_env_def)
  from total [of "CStr ''31-31-2024''"] rej
  have e3: "normalizeDate sample_env (CStr ''31-31-2024'') = Inr None" by blast
  from dec par e1 e2 e3 show ?thesis by (intro conjI)
qed

section \<open>Draft round trip (C3)\<close>

lemma regenerate_length: "length (regenerate env k rs) = length rs"
  by (simp add: regenerate_def)

lemma regenerate_nth:
  "i < length rs \<Longrightarrow> regenerate env k rs ! i = (rs ! i)\<lparr>localId := genLocalId env (k + i)\<rparr>"
  by (simp add: regenerate_def nth_enumerate_eq)

lemma regenerate_events_length: "length (regenerate_events env k rs) = length rs"
  by (simp add: regenerate_events_def)

lemma regenerate_events_nth:
  "i < length rs \<Longrightarrow>
     regenerate_events env k rs ! i = (rs ! i)\<lparr>e_localId := genEventId env (k + i)\<rparr>"
  by (simp add: regenerate_events_def nth_enumerate_eq)

lemma rules_round_trip:
  assumes safe: "parse_json sto (stringify sto \<lparr>d_headers = Some (rawHeaders st), d_rows = Some (rows st)\<rparr>)
                   = Some \<lparr>d_headers = Some (rawHeaders st), d_rows = Some (rows st)\<rparr>"
    and nonempty: "stringify sto \<lparr>d_headers = Some (rawHeaders st), d_rows = Some (rows st)\<rparr> \<noteq> []"
    and quota: "quota_ok sto (stringify sto \<lparr>d_headers = Some (rawHeaders st), d_rows = Some (rows st)\<rparr>)"
  shows "rows (loadDraft env sto (saveDraft sto st)) = regenerate env (draws st) (rows st)"
    and "rawHeaders (loadDraft env sto (saveDraft sto st)) = rawHeaders st"
  using assms by (simp_all add: loadDraft_def saveDraft_def Let_def)

lemma events_round_trip:
  assumes safe: "parse_json sto (stringify sto \<lparr>d_new = Some (newRows st), d_old = Some (oldRows st)\<rparr>)
                   = Some \<lparr>d_new = Some (newRows st), d_old = Some (oldRows st)\<rparr>"
    and nonempty: "stringify sto \<lparr>d_new = Some (newRows st), d_old = Some (oldRows st)\<rparr> \<noteq> []"
    and quota: "quota_ok sto (stringify sto \<lparr>d_new = Some (newRows st), d_old = Some (oldRows st)\<rparr>)"
  shows "newRows (loadEventsDraft env sto (saveDraftLocal sto st))
           = regenerate_events env (e_draws st) (newRows st)"
    and "oldRows (loadEventsDraft env sto (saveDraftLocal sto st))
           = regenerate_events env (e_draws st + length (newRows st)) (oldRows st)"
  using assms by (simp_all add: loadEventsDraft_def saveDraftLocal_def Let_def)

text \<open>
  Claim C3. Take a rules table and an events table whose drafts survive serialization
  (parsing the serialized draft gives the draft back; the text of an object is never empty)
  and a storage that accepts the texts. Then \<^verbatim>\<open>saveDraft\<close> followed by \<^verbatim>\<open>loadDraft\<close> gives as
  many rows as were saved, each equal to the saved row in every field except the local
  identifier, which is drawn anew from the random source; in particular the server
  identifier is the saved one, and the headers are restored. The same holds for both
  partitions of the events table. Tables without rows are included.
\<close>

theorem draft_round_trip:
  assumes "parse_json sto (stringify sto \<lparr>d_headers = Some (rawHeaders st), d_rows = Some (rows st)\<rparr>)
             = Some \<lparr>d_headers = Some (rawHeaders st), d_rows = Some (rows st)\<rparr>"
    and "stringify sto \<lparr>d_headers = Some (rawHeaders st), d_rows = Some (rows st)\<rparr> \<noteq> []"
    and "quota_ok sto (stringify sto \<lparr>d_headers = Some (rawHeaders st), d_rows = Some (rows st)\<rparr>)"
    and "parse_json esto (stringify esto \<lparr>d_new = Some (newRows est), d_old = Some (oldRows est)\<rparr>)
             = Some \<lparr>d_new = Some (newRows est), d_old = Some (oldRows est)\<rparr>"
    and "stringify esto \<lparr>d_new = Some (newRows est), d_old = Some (oldRows est)\<rparr> \<noteq> []"
    and "quota_ok esto (stringify esto \<lparr>d_new = Some (newRows est), d_old = Some (oldRows est)\<rparr>)"
  shows
    "length (rows (loadDraft env sto (saveDraft sto st))) = length (rows st) \<and>
     (\<forall>i < length (rows st).
        rows (loadDraft env sto (saveDraft sto st)) ! i =
          (rows st ! i)\<lparr>localId := genLocalId env (draws st + i)\<rparr> \<and>
        srv_id (rows (loadDraft env sto (saveDraft sto st)) ! i) = srv_id (rows st ! i)) \<and>
     rawHeaders (loadDraft env sto (saveDraft sto st)) = rawHeaders st \<and>
     length (newRows (loadEventsDraft env esto (saveDraftLocal esto est))) = length (newRows est) \<and>
     length (oldRows (loadEventsDraft env esto (saveDraftLocal esto est))) = length (oldRows est) \<and>
     (\<forall>i < length (newRows est).
        newRows (loadEventsDraft env esto (saveDraftLocal esto est)) ! i =
          (newRows est ! i)\<lparr>e_localId := genEventId env (e_draws est + i)\<rparr>) \<and>
     (\<forall>i < length (oldRows est).
        oldRows (loadEventsDraft env esto (saveDraftLocal esto est)) ! i =
          (oldRows est ! i)\<lparr>e_localId := genEventId env (e_draws est + length (newRows est) + i)\<rparr>)"
proof -
  note r = rules_round_trip [OF assms(1-3), of env]
  note e = events_round_trip [OF assms(4-6), of env]
  show ?thesis
    unfolding r e
    by (simp add: regenerate_length regenerate_nth regenerate_events_length
        regenerate_events_nth)
qed


theorem draft_round_trip_witness:
  "length (rows (loadDraft sample_env
      (single_slot ''{headers:[Change Reported,Severity],rows:[{R-1001},{R-1002}]}''
         \<lparr>d_headers = Some (rawHeaders sample_table), d_rows = Some (rows sample_table)\<rparr>)
      (saveDraft
         (single_slot ''{headers:[Change Reported,Severity],rows:[{R-1001},{R-1002}]}''
            \<lparr>d_headers = Some (rawHeaders sample_table), d_rows = Some (rows sample_table)\<rparr>)
         sample_table))) = 2 \<and>
   rows (loadDraft sample_env
      (single_slot ''{headers:[Change Reported,Severity],rows:[{R-1001},{R-1002}]}''
         \<lparr>d_headers = Some (rawHeaders sample_table), d_rows = Some (rows sample_table)\<rparr>)
      (saveDraft
         (single_slot ''{headers:[Change Reported,Severity],rows:[{R-1001},{R-1002}]}''
            \<lparr>d_headers = Some (rawHeaders sample_table), d_rows = Some (rows sample_table)\<rparr>)
         sample_table)) ! 0 = sample_table_row\<lparr>localId := ''loc_r2''\<rparr> \<and>
   newRows (loadEventsDraft sample_env
      (single_slot ''{new:[{Acme Ltd}],old:[]}''
         \<lparr>d_new = Some (newRows sample_events), d_old = Some (oldRows sample_events)\<rparr>)
      (saveDraftLocal
         (single_slot ''{new:[{Acme Ltd}],old:[]}''
            \<lparr>d_new = Some (newRows sample_events), d_old = Some (oldRows sample_events)\<rparr>)
         sample_events)) ! 0 = sample_event\<lparr>e_localId := ''e_r1''\<rparr>"
proof -
  define sto where "sto =
    single_slot ''{headers:[Change Reported,Severity],rows:[{R-1001},{R-1002}]}''
      \<lparr>d_headers = Some (rawHeaders sample_table), d_rows = Some (rows sample_table)\<rparr>"
  define esto where "esto =
    single_slot ''{new:[{Acme Ltd}],old:[]}''
      \<lparr>d_new = Some (newRows sample_events), d_old = Some (oldRows sample_events)\<rparr>"
  have a1: "parse_json sto (stringify sto
              \<lparr>d_headers = Some (rawHeaders sample_table), d_rows = Some (rows sample_table)\<rparr>)
            = Some \<lparr>d_headers = Some (rawHeaders sample_table), d_rows = Some (rows sample_table)\<rparr>"
    and a2: "stringify sto
              \<lparr>d_headers = Some (rawHeaders sample_table), d_rows = Some (rows sample_table)\<rparr> \<noteq> []"
    and a3: "quota_ok sto (stringify sto
              \<lparr>d_headers = Some (rawHeaders sample_table), d_rows = Some (rows sample_table)\<rparr>)"
    by (simp_all add: sto_def single_slot_def)
  have b1: "parse_json esto (stringify esto
              \<lparr>d_new = Some (newRows sample_events), d_old = Some (oldRows sample_events)\<rparr>)
            = Some \<lparr>d_new = Some (newRows sample_events), d_old = Some (oldRows sample_events)\<rparr>"
    and b2: "stringify esto
              \<lparr>d_new = Some (newRows sample_events), d_old = Some (oldRows sample_events)\<rparr> \<noteq> []"
    and b3: "quota_ok esto (stringify esto
              \<lparr>d_new = Some (newRows sample_events), d_old = Some (oldRows sample_events)\<rparr>)"
    by (simp_all add: esto_def single_slot_def)
  have ids: "genLocalId sample_env (draws sample_table + 0) = ''loc_r2''"
    "genEventId sample_env (e_draws sample_events + 0) = ''e_r1''"
    by (simp_all add: genLocalId_def genEventId_def sample_env_def sample_table_def
        sample_events_def show_nat.simps digit_char_def)
  have sz: "length (rows sample_table) = 2" "0 < length (rows sample_table)"
    "0 < length (newRows sample_events)"
    "rows sample_table ! 0 = sample_table_row" "newRows sample_events ! 0 = sample_event"
    by (simp_all add: sample_table_def sample_events_def)
  from draft_round_trip [OF a1 a2 a3 b1 b2 b3, of sample_env] sz ids
  show ?thesis
    unfolding sto_def [symmetric] esto_def [symmetric] by metis
qed

section \<open>Batch persistence of the rules table (C4)\<close>

lemma upsert_loop_calls:
  "fst (upsert_loop srv rs cs n lg) = cs @ map upsert_call rs"
  by (induction rs arbitrary: cs n lg) simp_all

lemma upsert_loop_count:
  "fst (snd (upsert_loop srv rs cs n lg)) = n + succeeded srv cs (map upsert_call rs)"
  by (induction rs arbitrary: cs n lg) simp_all

lemma calls_loadBackendRules:
  "calls (loadBackendRules env srv st) = calls st @ [GetRules]"
  by (simp add: loadBackendRules_def Let_def)

lemma upsert_call_normalized:
  "upsert_call (normalize_in_place env r) =
     (if truthy (srv_id r) then PutRule (srv_id r) (payload_of (normalize_in_place env r))
      else PostRule (payload_of (normalize_in_place env r)))"
  by (simp add: upsert_call_def normalize_in_place_def)

text \<open>
  Claim C4. When validation passes, \<^verbatim>\<open>upsertAll\<close> sends exactly one request per row, in the
  order of the collection: an update keyed by the row's \<^verbatim>\<open>_id\<close> for a row that carries one
  (the \<^verbatim>\<open>_id\<close> is set, that is truthy, as the code tests it), a create for every other row. This
  holds whatever the store answers, so a request that fails stops none of the later ones;
  the catalog is reloaded afterwards. The count reported is the number of these requests
  that succeeded.
\<close>

theorem upsertAll_batch:
  assumes valid: "snd (validateAll env (rows st))"
  shows
    "calls (upsertAll env srv st) =
       calls st @
       map (\<lambda>r. if truthy (srv_id r)
                then PutRule (srv_id r) (payload_of (normalize_in_place env r))
                else PostRule (payload_of (normalize_in_place env r))) (rows st) @
       [GetRules] \<and>
     importedCount (upsertAll env srv st) =
       Some (succeeded srv (calls st)
               (map (\<lambda>r. if truthy (srv_id r)
                        then PutRule (srv_id r) (payload_of (normalize_in_place env r))
                        else PostRule (payload_of (normalize_in_place env r))) (rows st)))"
proof -
  define rs where "rs = map (normalize_in_place env) (rows st)"
  define batch where "batch = map (\<lambda>r. if truthy (srv_id r)
                then PutRule (srv_id r) (payload_of (normalize_in_place env r))
                else PostRule (payload_of (normalize_in_place env r))) (rows st)"
  have batch: "map upsert_call rs = batch"
    by (simp add: rs_def batch_def upsert_call_normalized)
  obtain cs n lg where loop: "upsert_loop srv rs (calls st) 0 (logged st) = (cs, n, lg)"
    by (cases "upsert_loop srv rs (calls st) 0 (logged st)")
  from upsert_loop_calls [of srv rs "calls st" 0 "logged st"] loop batch
  have cs: "cs = calls st @ batch" by simp
  from upsert_loop_count [of srv rs "calls st" 0 "logged st"] loop batch
  have n: "n = succeeded srv (calls st) batch" by simp
  from valid have ok: "snd (validateAll env (rows st)) = True" by simp
  have "upsertAll env srv st =
      (let st2 = loadBackendRules env srv
                   (st\<lparr>rows := fst (validateAll env (rows st)), calls := cs, logged := lg\<rparr>)
       in st2\<lparr>importedCount := Some n, draft := None, savedDraftExists := False,
              alerts := alerts st2 @ [''Saved rules to server.'']\<rparr>)"
    using ok loop
    by (simp add: upsertAll_def Let_def split_beta rs_def [symmetric])
  then show ?thesis
    unfolding batch_def [symmetric]
    by (simp add: Let_def calls_loadBackendRules cs n)
qed

theorem upsertAll_batch_witness:
  "snd (validateAll sample_env (rows sample_batch)) \<and>
   calls (upsertAll sample_env flaky_server sample_batch) =
     [PutRule (CStr ''65a1f0'') (payload_of sample_table_row),
      PostRule (payload_of sample_local_row),
      PostRule (payload_of
        (sample_local_row\<lparr>rule_code := Some ''R-1003'', localId := ''loc_q1w2e3r''\<rparr>)),
      GetRules] \<and>
   importedCount (upsertAll sample_env flaky_server sample_batch) = Some 2"
proof -
  have valid: "snd (validateAll sample_env (rows sample_batch))"
    by code_simp
  have batch: "calls sample_batch @
       map (\<lambda>r. if truthy (srv_id r)
                then PutRule (srv_id r) (payload_of (normalize_in_place sample_env r))
                else PostRule (payload_of (normalize_in_place sample_env r))) (rows sample_batch) @
       [GetRules] =
     [PutRule (CStr ''65a1f0'') (payload_of sample_table_row),
      PostRule (payload_of sample_local_row),
      PostRule (payload_of
        (sample_local_row\<lparr>rule_code := Some ''R-1003'', localId := ''loc_q1w2e3r''\<rparr>)),
      GetRules]"
    by code_simp
  have count: "succeeded flaky_server (calls sample_batch)
               (map (\<lambda>r. if truthy (srv_id r)
                        then PutRule (srv_id r) (payload_of (normalize_in_place sample_env r))
                        else PostRule (payload_of (normalize_in_place sample_env r)))
                  (rows sample_batch)) = 2"
    by code_simp
  from upsertAll_batch [OF valid, of flaky_server] show ?thesis
    unfolding batch count using valid by simp
qed

section \<open>Header auto-mapping (C5)\<close>

lemma lower_map_snoc:
  "lower_map (hs @ [h]) = AList.update (toLowerCase h) h (lower_map hs)"
  by (simp add: lower_map_def)

lemma lower_map_value:
  "map_of (lower_map hs) p = Some h \<Longrightarrow> h \<in> set hs \<and> toLowerCase h = p"
proof (induction hs arbitrary: h rule: rev_induct)
  case Nil
  then show ?case by (simp add: lower_map_def)
next
  case (snoc x xs)
  then show ?case
    by (auto simp add: lower_map_snoc update_conv' split: if_splits)
qed

lemma map_of_map_field:
  "map_of (map_field M lm f m) k =
     (if k = fst f
      then (case (case find (M (fst f) (snd f)) (own_keys lm) of
                    None \<Rightarrow> None
                  | Some p \<Rightarrow> if p = [] then None else map_of lm p) of
              None \<Rightarrow> map_of m k
            | Some h \<Rightarrow> Some h)
      else map_of m k)"
  by (simp add: map_field_def update_conv' split: option.splits)

lemma fold_map_field_other:
  "k \<notin> fst ` set fs \<Longrightarrow> map_of (fold (map_field M lm) fs m) k = map_of m k"
  by (induction fs arbitrary: m) (simp_all add: map_of_map_field)

lemma fold_map_field_at:
  assumes "distinct (map fst fs)" "f \<in> set fs"
  shows "map_of (fold (map_field M lm) fs m) (fst f) =
     (case (case find (M (fst f) (snd f)) (own_keys lm) of
              None \<Rightarrow> None
            | Some p \<Rightarrow> if p = [] then None else map_of lm p) of
        None \<Rightarrow> map_of m (fst f)
      | Some h \<Rightarrow> Some h)"
  using assms
proof (induction fs arbitrary: m)
  case Nil
  then show ?case by simp
next
  case (Cons g gs)
  show ?case
  proof (cases "f = g")
    case True
    with Cons.prems have "fst f \<notin> fst ` set gs" by auto
    then have "map_of (fold (map_field M lm) gs (map_field M lm g m)) (fst f) =
        map_of (map_field M lm g m) (fst f)"
      by (rule fold_map_field_other)
    with True show ?thesis by (auto simp add: map_of_map_field)
  next
    case False
    with Cons.prems have mem: "f \<in> set gs" and d: "distinct (map fst gs)"
      and ng: "fst g \<notin> fst ` set gs" by auto
    from mem ng have ne: "fst f \<noteq> fst g" by (metis image_eqI)
    from ne have other: "map_of (map_field M lm g m) (fst f) = map_of m (fst f)"
      by (simp add: map_of_map_field)
    from Cons.IH [OF d mem, of "map_field M lm g m"] show ?thesis
      unfolding other by simp
  qed
qed

lemma direct_map_at:
  assumes "distinct (map fst fs)" "f \<in> set fs"
  shows "map_of (direct_map M fs (lower_map headers)) (fst f) = first_match M headers f"
  using fold_map_field_at [OF assms, of M "lower_map headers" "[]"]
  by (simp add: direct_map_def first_match_def split: option.splits)

lemma direct_map_other:
  "k \<notin> fst ` set fs \<Longrightarrow> map_of (direct_map M fs lm) k = None"
  using fold_map_field_other [of k fs M lm "[]"] by (simp add: direct_map_def)

lemma first_match_header:
  assumes "first_match M headers f = Some h"
  shows "h \<in> set headers \<and> h \<noteq> [] \<and> M (fst f) (snd f) (toLowerCase h)"
proof -
  from assms obtain p where p: "find (M (fst f) (snd f)) (own_keys (lower_map headers)) = Some p"
    and ne: "p \<noteq> []" and v: "map_of (lower_map headers) p = Some h"
    by (auto simp add: first_match_def split: option.splits if_splits)
  from lower_map_value [OF v] have h: "h \<in> set headers" and l: "toLowerCase h = p" by simp_all
  from p have "M (fst f) (snd f) p" by (auto simp add: find_Some_iff)
  with h l ne show ?thesis by (auto simp add: toLowerCase_def)
qed

lemma severity_fallback_at:
  "map_of (severity_fallback (lower_map headers) m) k =
     (if k = ''severity'' \<and> (map_of m ''severity'' = None \<or> map_of m ''severity'' = Some [])
      then (case fallback_match headers of None \<Rightarrow> map_of m k | Some h \<Rightarrow> Some h)
      else map_of m k)"
  by (auto simp add: severity_fallback_def fallback_match_def update_conv'
      split: option.splits)


lemma set_own_keys: "set (own_keys obj) = fst ` set obj"
  by (auto simp add: own_keys_def Let_def)

lemma lower_map_keys: "p \<in> fst ` set (lower_map hs) \<Longrightarrow> map_of (lower_map hs) p \<noteq> None"
  by (simp add: map_of_eq_None_iff)

lemma first_match_position:
  assumes "first_match M headers f = Some h"
  shows "\<exists>i < length (own_keys (lower_map headers)).
           own_keys (lower_map headers) ! i = toLowerCase h \<and>
           M (fst f) (snd f) (own_keys (lower_map headers) ! i) \<and>
           (\<forall>j < i. \<not> M (fst f) (snd f) (own_keys (lower_map headers) ! j))"
proof -
  from assms obtain p where p: "find (M (fst f) (snd f)) (own_keys (lower_map headers)) = Some p"
    and v: "map_of (lower_map headers) p = Some h"
    by (auto simp add: first_match_def split: option.splits if_splits)
  from lower_map_value [OF v] have l: "toLowerCase h = p" by simp
  from p l show ?thesis unfolding find_Some_iff by auto
qed

lemma first_match_none:
  assumes "first_match M headers f = None"
  shows "(\<forall>k \<in> set (own_keys (lower_map headers)). \<not> M (fst f) (snd f) k) \<or>
         find (M (fst f) (snd f)) (own_keys (lower_map headers)) = Some []"
proof (cases "find (M (fst f) (snd f)) (own_keys (lower_map headers))")
  case None
  then show ?thesis by (simp add: find_None_iff)
next
  case (Some p)
  then have "p \<in> set (own_keys (lower_map headers))"
    by (auto simp add: find_Some_iff)
  then have "map_of (lower_map headers) p \<noteq> None"
    unfolding set_own_keys by (rule lower_map_keys)
  with assms Some show ?thesis
    by (auto simp add: first_match_def split: if_splits)
qed

lemma distinct_KNOWN_FIELDS: "distinct (map fst KNOWN_FIELDS)"
  by (simp add: KNOWN_FIELDS_def field_specs_def EDITABLE_FIELDS_def)

lemma distinct_field_specs: "distinct (map fst field_specs)"
  by (simp add: field_specs_def EDITABLE_FIELDS_def)

lemma automap_at:
  assumes d: "distinct (map fst fs)" and f: "f \<in> set fs"
  shows "map_of (severity_fallback (lower_map headers) (direct_map M fs (lower_map headers))) (fst f) =
        (if fst f = ''severity'' \<and> first_match M headers f = None
         then fallback_match headers
         else first_match M headers f)"
proof -
  note dm = direct_map_at [OF d f, of M headers]
  have not_empty: "first_match M headers f \<noteq> Some []"
    using first_match_header [of M headers f "[]"] by auto
  show ?thesis
  proof (cases "fst f = ''severity''")
    case False
    then show ?thesis by (simp add: severity_fallback_at dm)
  next
    case True
    with dm have s: "map_of (direct_map M fs (lower_map headers)) ''severity'' = first_match M headers f"
      by simp
    show ?thesis
      using True not_empty
      by (cases "fallback_match headers") (simp_all add: severity_fallback_at s)
  qed
qed

text \<open>
  Claim C5, as amended. For each target field, on the upload page and in the rules table,
  the header assigned is \<open>first_match\<close>: the header behind the first key, in the enumeration
  order of the lower-cased headers, that passes any one of the tests (equality with the
  field key, or containment in one of the directions); it is one of the discovered headers
  and is not empty, and no earlier key passes a test. Exact equality has no priority over
  an earlier key that passes by containment. A field has no direct mapping only when no key
  passes or when the first key that passes is empty. The severity field alone falls back to
  the first key containing \<open>severity\<close>, \<open>level\<close> or \<open>risk\<close>, and only when it has no
  direct mapping.
\<close>

theorem automap_first_match:
  "(\<forall>f \<in> set KNOWN_FIELDS.
      map_of (automap_page headers) (fst f) =
        (if fst f = ''severity'' \<and> first_match header_matches headers f = None
         then fallback_match headers
         else first_match header_matches headers f)) \<and>
   (\<forall>f \<in> set field_specs.
      map_of (automap_table headers) (fst f) =
        (if fst f = ''severity'' \<and> first_match header_matches_table headers f = None
         then fallback_match headers
         else first_match header_matches_table headers f)) \<and>
   (\<forall>M f h. first_match M headers f = Some h \<longrightarrow>
      h \<in> set headers \<and> h \<noteq> [] \<and>
      (\<exists>i < length (own_keys (lower_map headers)).
           own_keys (lower_map headers) ! i = toLowerCase h \<and>
           M (fst f) (snd f) (own_keys (lower_map headers) ! i) \<and>
           (\<forall>j < i. \<not> M (fst f) (snd f) (own_keys (lower_map headers) ! j)))) \<and>
   (\<forall>M f. first_match M headers f = None \<longrightarrow>
      (\<forall>k \<in> set (own_keys (lower_map headers)). \<not> M (fst f) (snd f) k) \<or>
      find (M (fst f) (snd f)) (own_keys (lower_map headers)) = Some [])"
proof (intro conjI ballI allI impI)
  fix f assume "f \<in> set KNOWN_FIELDS"
  from automap_at [OF distinct_KNOWN_FIELDS this, of headers header_matches]
  show "map_of (automap_page headers) (fst f) =
        (if fst f = ''severity'' \<and> first_match header_matches headers f = None
         then fallback_match headers
         else first_match header_matches headers f)"
    by (simp add: automap_page_def Let_def)
next
  fix f assume "f \<in> set field_specs"
  from automap_at [OF distinct_field_specs this, of headers header_matches_table]
  show "map_of (automap_table headers) (fst f) =
        (if fst f = ''severity'' \<and> first_match header_matches_table headers f = None
         then fallback_match headers
         else first_match header_matches_table headers f)"
    by (simp add: automap_table_def Let_def)
next
  fix M :: "string \<Rightarrow> string \<Rightarrow> string \<Rightarrow> bool" and f h
  assume h: "first_match M headers f = Some h"
  from first_match_header [OF h] show "h \<in> set headers" by simp
  from first_match_header [OF h] show "h \<noteq> []" by simp
  from first_match_position [OF h]
  show "\<exists>i < length (own_keys (lower_map headers)).
           own_keys (lower_map headers) ! i = toLowerCase h \<and>
           M (fst f) (snd f) (own_keys (lower_map headers) ! i) \<and>
           (\<forall>j < i. \<not> M (fst f) (snd f) (own_keys (lower_map headers) ! j))" .
next
  fix M :: "string \<Rightarrow> string \<Rightarrow> string \<Rightarrow> bool" and f
  assume "first_match M headers f = None"
  then show "(\<forall>k \<in> set (own_keys (lower_map headers)). \<not> M (fst f) (snd f) k) \<or>
      find (M (fst f) (snd f)) (own_keys (lower_map headers)) = Some []"
    by (rule first_match_none)
qed

theorem automap_first_match_witness:
  "map_of (automap_page [''Rule Code'', ''Change Reported'', ''Risk Level''])
     ''change_reported'' = Some ''Change Reported'' \<and>
   first_match header_matches [''Rule Code'', ''Change Reported'', ''Risk Level'']
     (''severity'', ''Severity'') = None \<and>
   map_of (automap_page [''Rule Code'', ''Change Reported'', ''Risk Level''])
     ''severity'' = Some ''Risk Level'' \<and>
   map_of (automap_table [''Rule Code'', ''Change Reported'', ''Risk Level''])
     ''severity'' = Some ''Risk Level''"
proof -
  let ?hs = "[''Rule Code'', ''Change Reported'', ''Risk Level'']"
  have m1: "(''change_reported'', ''Change Reported'') \<in> set KNOWN_FIELDS"
    and m2: "(''severity'', ''Severity'') \<in> set KNOWN_FIELDS"
    and m3: "(''severity'', ''Severity'') \<in> set field_specs"
    by (simp_all add: KNOWN_FIELDS_def field_specs_def EDITABLE_FIELDS_def)
  have v1: "first_match header_matches ?hs (''change_reported'', ''Change Reported'')
              = Some ''Change Reported''"
    by code_simp
  have v2: "first_match header_matches ?hs (''severity'', ''Severity'') = None"
    by code_simp
  have v3: "first_match header_matches_table ?hs (''severity'', ''Severity'') = None"
    by code_simp
  have v4: "fallback_match ?hs = Some ''Risk Level''"
    by code_simp
  note am = automap_first_match [of ?hs]
  from am m1 have "map_of (automap_page ?hs) (fst (''change_reported'', ''Change Reported'')) =
      first_match header_matches ?hs (''change_reported'', ''Change Reported'')"
    by (metis (no_types, lifting) fst_conv list.inject list.simps(3))
  then have r1: "map_of (automap_page ?hs) ''change_reported'' = Some ''Change Reported''"
    using v1 by simp
  from am m2 v2 have "map_of (automap_page ?hs) (fst (''severity'', ''Severity'')) =
      fallback_match ?hs"
    by (metis (no_types, lifting) fst_conv)
  then have r2: "map_of (automap_page ?hs) ''severity'' = Some ''Risk Level''"
    using v4 by simp
  from am m3 v3 have "map_of (automap_table ?hs) (fst (''severity'', ''Severity'')) =
      fallback_match ?hs"
    by (metis (no_types, lifting) fst_conv)
  then have r3: "map_of (automap_table ?hs) ''severity'' = Some ''Risk Level''"
    using v4 by simp
  from r1 v2 r2 r3 show ?thesis by (intro conjI)
qed

text \<open>
  As stated, the claim searches for an exact match first. With the headers
  \<open>Severity Level\<close> and \<open>Severity\<close>, in this order, the second equals the key of the severity
  field, yet the first is assigned: it contains the key and comes first.
\<close>

theorem automap_exact_match_counterexample:
  "find (\<lambda>h. toLowerCase h = ''severity'') [''Severity Level'', ''Severity''] = Some ''Severity'' \<and>
   map_of (automap_page [''Severity Level'', ''Severity'']) ''severity'' = Some ''Severity Level'' \<and>
   map_of (automap_table [''Severity Level'', ''Severity'']) ''severity'' = Some ''Severity Level''"
  by code_simp

section \<open>Failed imports (C7)\<close>

lemma decodable_cases:
  assumes "\<not> undecodable up"
  obtains wb first rest sheet json where "up = Some wb" "SheetNames wb = first # rest"
    "map_of (Sheets wb) first = Some sheet" "sh_json sheet = Some json"
proof -
  from assms obtain wb where f: "up = Some wb"
    by (cases up) (simp_all add: undecodable_def)
  from assms f obtain first rest where n: "SheetNames wb = first # rest"
    by (cases "SheetNames wb") (simp_all add: undecodable_def)
  from assms f n obtain sheet where s: "map_of (Sheets wb) first = Some sheet"
    by (cases "map_of (Sheets wb) first") (simp_all add: undecodable_def)
  from assms f n s obtain json where "sh_json sheet = Some json"
    by (cases "sh_json sheet") (simp_all add: undecodable_def)
  with f n s show ?thesis by (rule that)
qed

lemma handleFile_undecodable:
  assumes "undecodable up"
  shows "handleFile env sto up st = fail_import st"
proof (cases up)
  case None
  then show ?thesis by (simp add: handleFile_def)
next
  case (Some wb)
  show ?thesis
  proof (cases "SheetNames wb")
    case Nil
    with Some show ?thesis by (simp add: handleFile_def)
  next
    case (Cons first rest)
    show ?thesis
    proof (cases "map_of (Sheets wb) first")
      case None
      with Some Cons show ?thesis by (simp add: handleFile_def)
    next
      case sheet: (Some sheet)
      with assms Some Cons have "sh_json sheet = None"
        by (simp add: undecodable_def)
      with Some Cons sheet show ?thesis by (simp add: handleFile_def)
    qed
  qed
qed

lemma handleFile_decodable:
  assumes "\<not> undecodable up"
  shows "alerts (handleFile env sto up st) = alerts st"
proof -
  from assms obtain wb first rest sheet json where "up = Some wb" "SheetNames wb = first # rest"
    "map_of (Sheets wb) first = Some sheet" "sh_json sheet = Some json"
    by (rule decodable_cases)
  then show ?thesis
    by (simp add: handleFile_def Let_def split_beta)
qed

lemma handleEventsFile_unreadable:
  assumes "first_sheet_unreadable up"
  shows "handleEventsFile env sto fz up st = fail_upload (e_draws st) st"
  using assms
  by (cases up) (simp_all add: handleEventsFile_def first_sheet_unreadable_def)

lemma handleEventsFile_first_rows_raise:
  assumes "up = Some wb"
    and "sheet_rows (case SheetNames wb of [] \<Rightarrow> None | n # _ \<Rightarrow> map_of (Sheets wb) n) = Some json"
    and "map_rows env fz New (e_draws st) json = (Inl e, k)"
  shows "handleEventsFile env sto fz up st = fail_upload k st"
  using assms
  by (simp add: handleEventsFile_def)

text \<open>
  Claim C7, as amended. In the rules table an upload that cannot be decoded (no workbook,
  no first sheet, or a first sheet whose conversion raises) is reported and changes nothing
  else: rows, headers, raw rows, mapping, draft and counter are as before; and no other
  upload is reported as failed. In the events table an upload whose workbook or first sheet
  cannot be read is reported and changes nothing else, and when building the rows of the
  first sheet raises, only the position of the random source has moved. What a failure
  during the second sheet leaves behind is not part of this statement.
\<close>

theorem failed_import_leaves_state:
  "(undecodable up \<longrightarrow>
      handleFile env sto up st =
        st\<lparr>logged := logged st @ [''import failed''],
           alerts := alerts st @ [''Failed to parse uploaded file. Ensure XLS/XLSX/CSV.'']\<rparr>) \<and>
   (\<not> undecodable up \<longrightarrow> alerts (handleFile env sto up st) = alerts st) \<and>
   (first_sheet_unreadable up \<longrightarrow>
      handleEventsFile env esto fz up est =
        est\<lparr>e_logged := e_logged est @ [''upload failed''],
            e_alerts := e_alerts est @ [''Failed to parse uploaded file. Ensure XLS/XLSX/CSV.'']\<rparr>) \<and>
   (\<forall>wb json e k.
      up = Some wb \<and>
      sheet_rows (case SheetNames wb of [] \<Rightarrow> None | n # _ \<Rightarrow> map_of (Sheets wb) n) = Some json \<and>
      map_rows env fz New (e_draws est) json = (Inl e, k) \<longrightarrow>
      handleEventsFile env esto fz up est =
        est\<lparr>e_draws := k,
            e_logged := e_logged est @ [''upload failed''],
            e_alerts := e_alerts est @ [''Failed to parse uploaded file. Ensure XLS/XLSX/CSV.'']\<rparr>)"
proof (intro conjI impI allI)
  assume "undecodable up"
  then show "handleFile env sto up st =
        st\<lparr>logged := logged st @ [''import failed''],
           alerts := alerts st @ [''Failed to parse uploaded file. Ensure XLS/XLSX/CSV.'']\<rparr>"
    by (simp add: handleFile_undecodable fail_import_def)
next
  assume "\<not> undecodable up"
  then show "alerts (handleFile env sto up st) = alerts st"
    by (rule handleFile_decodable)
next
  assume "first_sheet_unreadable up"
  then show "handleEventsFile env esto fz up est =
        est\<lparr>e_logged := e_logged est @ [''upload failed''],
            e_alerts := e_alerts est @ [''Failed to parse uploaded file. Ensure XLS/XLSX/CSV.'']\<rparr>"
    by (simp add: handleEventsFile_unreadable fail_upload_def)
next
  fix wb json e k
  assume h: "up = Some wb \<and>
      sheet_rows (case SheetNames wb of [] \<Rightarrow> None | n # _ \<Rightarrow> map_of (Sheets wb) n) = Some json \<and>
      map_rows env fz New (e_draws est) json = (Inl e, k)"
  then have a1: "up = Some wb"
    and a2: "sheet_rows (case SheetNames wb of [] \<Rightarrow> None | n # _ \<Rightarrow> map_of (Sheets wb) n) = Some json"
    and a3: "map_rows env fz New (e_draws est) json = (Inl e, k)"
    by simp_all
  show "handleEventsFile env esto fz up est =
        est\<lparr>e_draws := k,
            e_logged := e_logged est @ [''upload failed''],
            e_alerts := e_alerts est @ [''Failed to parse uploaded file. Ensure XLS/XLSX/CSV.'']\<rparr>"
    using handleEventsFile_first_rows_raise [OF a1 a2 a3]
    by (simp add: fail_upload_def)
qed


theorem failed_import_leaves_state_witness:
  "undecodable (Some unreadable_workbook) \<and>
   handleFile sample_env plain_rules_storage (Some unreadable_workbook) sample_table =
     sample_table\<lparr>logged := logged sample_table @ [''import failed''],
       alerts := alerts sample_table @ [''Failed to parse uploaded file. Ensure XLS/XLSX/CSV.'']\<rparr> \<and>
   \<not> undecodable (Some half_readable_workbook) \<and>
   alerts (handleFile sample_env plain_rules_storage (Some half_readable_workbook) sample_table) =
     alerts sample_table \<and>
   first_sheet_unreadable (Some unreadable_workbook) \<and>
   handleEventsFile sample_env plain_events_storage sample_fuse (Some unreadable_workbook)
       sample_events =
     sample_events\<lparr>e_logged := e_logged sample_events @ [''upload failed''],
       e_alerts := e_alerts sample_events @
         [''Failed to parse uploaded file. Ensure XLS/XLSX/CSV.'']\<rparr> \<and>
   map_rows overflow_env sample_fuse New (e_draws sample_events) [sample_sheet_row] =
     (Inl RangeError, 2) \<and>
   handleEventsFile overflow_env plain_events_storage sample_fuse (Some half_readable_workbook)
       sample_events =
     sample_events\<lparr>e_draws := 2,
       e_logged := e_logged sample_events @ [''upload failed''],
       e_alerts := e_alerts sample_events @
         [''Failed to parse uploaded file. Ensure XLS/XLSX/CSV.'']\<rparr>"
proof -
  have u1: "undecodable (Some unreadable_workbook)"
    by (simp add: undecodable_def unreadable_workbook_def)
  have u2: "\<not> undecodable (Some half_readable_workbook)"
    by (simp add: undecodable_def half_readable_workbook_def)
  have u3: "first_sheet_unreadable (Some unreadable_workbook)"
    by (simp add: first_sheet_unreadable_def unreadable_workbook_def sheet_rows_def)
  have rows: "sheet_rows (case SheetNames half_readable_workbook of [] \<Rightarrow> None
                 | n # _ \<Rightarrow> map_of (Sheets half_readable_workbook) n) = Some [sample_sheet_row]"
    by (simp add: half_readable_workbook_def sheet_rows_def)
  have raise: "map_rows overflow_env sample_fuse New (e_draws sample_events) [sample_sheet_row] =
     (Inl RangeError, 2)"
    by code_simp
  note t1 = failed_import_leaves_state [of "Some unreadable_workbook" sample_env
      plain_rules_storage sample_table plain_events_storage sample_fuse sample_events]
  note t2 = failed_import_leaves_state [of "Some half_readable_workbook" sample_env
      plain_rules_storage sample_table plain_events_storage sample_fuse sample_events]
  note t3 = failed_import_leaves_state [of "Some half_readable_workbook" overflow_env
      plain_rules_storage sample_table plain_events_storage sample_fuse sample_events]
  from t1 u1 have r1: "handleFile sample_env plain_rules_storage (Some unreadable_workbook) sample_table =
     sample_table\<lparr>logged := logged sample_table @ [''import failed''],
       alerts := alerts sample_table @ [''Failed to parse uploaded file. Ensure XLS/XLSX/CSV.'']\<rparr>"
    by blast
  from t2 u2 have r2: "alerts (handleFile sample_env plain_rules_storage
      (Some half_readable_workbook) sample_table) = alerts sample_table"
    by blast
  from t1 u3 have r3: "handleEventsFile sample_env plain_events_storage sample_fuse
       (Some unreadable_workbook) sample_events =
     sample_events\<lparr>e_logged := e_logged sample_events @ [''upload failed''],
       e_alerts := e_alerts sample_events @
         [''Failed to parse uploaded file. Ensure XLS/XLSX/CSV.'']\<rparr>"
    by blast
  from t3 rows raise have r4: "handleEventsFile overflow_env plain_events_storage sample_fuse
       (Some half_readable_workbook) sample_events =
     sample_events\<lparr>e_draws := 2,
       e_logged := e_logged sample_events @ [''upload failed''],
       e_alerts := e_alerts sample_events @
         [''Failed to parse uploaded file. Ensure XLS/XLSX/CSV.'']\<rparr>"
    by blast
  from u1 r1 u2 r2 u3 r3 raise r4 show ?thesis by (intro conjI)
qed

text \<open>
  As stated, the claim covers every later step that raises. In the events table the rows
  and headers of the first sheet are handed to the state before the second sheet is read:
  when the conversion of the second sheet raises, the failure is reported and the first
  sheet's rows and headers stay imported.
\<close>

theorem failed_import_counterexample:
  "newRows sample_events = [sample_event] \<and>
   rawHeadersNew sample_events = [] \<and>
   e_alerts (handleEventsFile sample_env plain_events_storage sample_fuse
      (Some half_readable_workbook) sample_events)
     = [''Failed to parse uploaded file. Ensure XLS/XLSX/CSV.''] \<and>
   length (newRows (handleEventsFile sample_env plain_events_storage sample_fuse
      (Some half_readable_workbook) sample_events)) = 2 \<and>
   rawHeadersNew (handleEventsFile sample_env plain_events_storage sample_fuse
      (Some half_readable_workbook) sample_events)
     = [''Name of Company'', ''Change Reported'', ''Event Date'', ''Flag'']"
  by code_simp

section \<open>Alert projection (C8)\<close>

lemma matchedAlerts_length:
  "length (matchedAlerts env k rs) = length (filter (\<lambda>r. matchedRule r \<noteq> None) rs)"
  by (simp add: matchedAlerts_def)

lemma matchedAlerts_nth:
  assumes "i < length (filter (\<lambda>r. matchedRule r \<noteq> None) rs)"
  shows "matchedAlerts env k rs ! i =
           alert_of (clock env (k + i)) (filter (\<lambda>r. matchedRule r \<noteq> None) rs ! i)"
  using assms by (simp add: matchedAlerts_def nth_enumerate_eq)

lemma calls_post_alerts:
  "e_calls (fst (post_alerts srv matched st)) =
     e_calls st @ (if matched = [] then [] else [PostAlerts matched])"
  by (simp add: post_alerts_def Let_def)

text \<open>
  Claim C8, as amended. After a successful save of the events, the alerts projected are one
  per row of the first sheet (the new events) that carries a matched rule, in order: each
  holds the row's company and event text (the empty string where the row's value is falsy),
  the raw source row, the matched rule, the severity and turnaround days of that rule, the
  status \<open>Pending\<close> and the clock reading taken when it was built. They are posted in one
  request when there is at least one, and no request is made otherwise. Rows of the second
  sheet and rows without a matched rule give no alert.
\<close>

theorem alert_projection:
  assumes saved: "e_succeeds srv (e_calls st)
                    (PostEvents (map event_payload_of (newRows st @ oldRows st)))"
    and go: "confirmed \<or>
             \<not> list_ex (\<lambda>r. \<not> truthy (company r) \<or> \<not> truthy (e_change_reported r))
                  (newRows st @ oldRows st)"
  shows
    "e_calls (saveAllToServer env srv confirmed st) =
       e_calls st @ [PostEvents (map event_payload_of (newRows st @ oldRows st))] @
       (if matchedAlerts env (e_ticks st) (newRows st) = [] then []
        else [PostAlerts (matchedAlerts env (e_ticks st) (newRows st))]) \<and>
     length (matchedAlerts env (e_ticks st) (newRows st)) =
       length (filter (\<lambda>r. matchedRule r \<noteq> None) (newRows st)) \<and>
     (\<forall>i < length (filter (\<lambda>r. matchedRule r \<noteq> None) (newRows st)).
        \<exists>m. matchedRule (filter (\<lambda>r. matchedRule r \<noteq> None) (newRows st) ! i) = Some m \<and>
          matchedAlerts env (e_ticks st) (newRows st) ! i =
            \<lparr>a_company =
               or_else (company (filter (\<lambda>r. matchedRule r \<noteq> None) (newRows st) ! i)) (CStr []),
             a_event_name =
               or_else (e_change_reported (filter (\<lambda>r. matchedRule r \<noteq> None) (newRows st) ! i))
                 (CStr []),
             a_event_raw =
               (case event_raw (filter (\<lambda>r. matchedRule r \<noteq> None) (newRows st) ! i) of
                  None \<Rightarrow> [] | Some raw \<Rightarrow> raw),
             a_matched_rule = Some m,
             a_severity = severity m,
             a_tat_days = tat_days m,
             a_status = ''Pending'',
             a_created_at = ISO (clock env (e_ticks st + i))\<rparr>)"
proof (intro conjI allI impI)
  let ?matched = "matchedAlerts env (e_ticks st) (newRows st)"
  define st2 where "st2 =
      st\<lparr>e_calls := e_calls st @ [PostEvents (map event_payload_of (newRows st @ oldRows st))],
          importResult := None,
          newRows := map (\<lambda>r. r\<lparr>e_saved := Some True\<rparr>) (newRows st),
          oldRows := map (\<lambda>r. r\<lparr>e_saved := Some True\<rparr>) (oldRows st),
          e_ticks := e_ticks st + length ?matched\<rparr>"
  obtain st3 n where pa: "post_alerts srv ?matched st2 = (st3, n)"
    by (cases "post_alerts srv ?matched st2")
  have "e_calls st3 = e_calls st2 @ (if ?matched = [] then [] else [PostAlerts ?matched])"
    using calls_post_alerts [of srv ?matched st2] pa by simp
  then have c3: "e_calls st3 =
      (e_calls st @ [PostEvents (map event_payload_of (newRows st @ oldRows st))]) @
      (if ?matched = [] then [] else [PostAlerts ?matched])"
    by (simp add: st2_def)
  note pa' = pa [unfolded st2_def]
  show "e_calls (saveAllToServer env srv confirmed st) =
       e_calls st @ [PostEvents (map event_payload_of (newRows st @ oldRows st))] @
       (if ?matched = [] then [] else [PostAlerts ?matched])"
    using saved go pa' c3
    by (auto simp add: saveAllToServer_def Let_def)
next
  show "length (matchedAlerts env (e_ticks st) (newRows st)) =
       length (filter (\<lambda>r. matchedRule r \<noteq> None) (newRows st))"
    by (rule matchedAlerts_length)
next
  fix i
  assume i: "i < length (filter (\<lambda>r. matchedRule r \<noteq> None) (newRows st))"
  let ?r = "filter (\<lambda>r. matchedRule r \<noteq> None) (newRows st) ! i"
  from i have "?r \<in> set (filter (\<lambda>r. matchedRule r \<noteq> None) (newRows st))"
    by (rule nth_mem)
  then obtain m where m: "matchedRule ?r = Some m" by auto
  from matchedAlerts_nth [OF i, of env "e_ticks st"] m
  show "\<exists>m. matchedRule ?r = Some m \<and>
          matchedAlerts env (e_ticks st) (newRows st) ! i =
            \<lparr>a_company = or_else (company ?r) (CStr []),
             a_event_name = or_else (e_change_reported ?r) (CStr []),
             a_event_raw = (case event_raw ?r of None \<Rightarrow> [] | Some raw \<Rightarrow> raw),
             a_matched_rule = Some m,
             a_severity = severity m,
             a_tat_days = tat_days m,
             a_status = ''Pending'',
             a_created_at = ISO (clock env (e_ticks st + i))\<rparr>"
    by (simp add: alert_of_def)
qed


theorem alert_projection_witness:
  "e_calls (saveAllToServer sample_env accepting_server False sample_events) =
     [PostEvents [event_payload_of sample_event],
      PostAlerts
        [\<lparr>a_company = CStr ''Acme Ltd'',
          a_event_name = CStr ''resignation of auditor'',
          a_event_raw = sample_sheet_row,
          a_matched_rule = Some sample_rule,
          a_severity = CStr ''High'',
          a_tat_days = CNum (Fin 7),
          a_status = ''Pending'',
          a_created_at = ISO 1700000000000\<rparr>]]"
proof -
  have saved: "e_succeeds accepting_server (e_calls sample_events)
                 (PostEvents (map event_payload_of (newRows sample_events @ oldRows sample_events)))"
    by (simp add: accepting_server_def)
  have go: "False \<or>
             \<not> list_ex (\<lambda>r. \<not> truthy (company r) \<or> \<not> truthy (e_change_reported r))
                  (newRows sample_events @ oldRows sample_events)"
    by (simp add: sample_events_def sample_event_def)
  have alerts: "matchedAlerts sample_env (e_ticks sample_events) (newRows sample_events) =
        [\<lparr>a_company = CStr ''Acme Ltd'',
          a_event_name = CStr ''resignation of auditor'',
          a_event_raw = sample_sheet_row,
          a_matched_rule = Some sample_rule,
          a_severity = CStr ''High'',
          a_tat_days = CNum (Fin 7),
          a_status = ''Pending'',
          a_created_at = ISO 1700000000000\<rparr>]"
    by code_simp
  have rows: "newRows sample_events @ oldRows sample_events = [sample_event]"
    "e_calls sample_events = []"
    by (simp_all add: sample_events_def)
  from alert_projection [OF saved go, of sample_env] show ?thesis
    unfolding alerts rows by simp
qed

text \<open>
  As stated, the claim gives an alert to every event row with a matched rule. A table whose
  only row is on the second sheet and carries a matched rule is saved without any alert.
\<close>

theorem alert_projection_counterexample:
  "oldRows sample_old_events = [sample_event\<lparr>sheetType := Old\<rparr>] \<and>
   matchedRule (sample_event\<lparr>sheetType := Old\<rparr>) = Some sample_rule \<and>
   e_calls (saveAllToServer sample_env accepting_server False sample_old_events) =
     [PostEvents [event_payload_of (sample_event\<lparr>sheetType := Old\<rparr>)]]"
  by code_simp

section \<open>Deleting a persisted rule (C10)\<close>

lemma localId_set_field: "localId (set_field f v r) = localId r"
  by (cases f) simp_all

lemma localId_fold_set_field:
  "localId (fold (\<lambda>f out. set_field f (g f) out) fs r) = localId r"
  by (induction fs arbitrary: r) (simp_all add: localId_set_field)

lemma localId_load_row: "localId (load_row env lid idx r) = lid"
  by (simp add: load_row_def localId_fold_set_field blank_row_def)

lemma load_rows_localIds:
  "map localId (load_rows env k rs) = map (\<lambda>i. genLocalId env (k + i)) [0..<length rs]"
  by (rule nth_equalityI)
     (simp_all add: load_rows_def localId_load_row nth_enumerate_eq)

lemma rows_loadBackendRules:
  "succeeds srv (calls st) GetRules \<Longrightarrow>
     rows (loadBackendRules env srv st) =
       load_rows env (draws st) (body_list (rules_body srv (calls st)))"
  by (simp add: loadBackendRules_def Let_def)

text \<open>
  Claim C10. Deleting a row that carries a server identifier, once the user confirms, the
  remote delete succeeds and the reload of the catalog that follows succeeds too, leaves as
  rows exactly the rows built from the reloaded catalog, each with a local identifier drawn
  anew. So a row that had no server identifier before the delete, and whose local
  identifier is not drawn again, is no longer in the collection.
\<close>

theorem delete_reloads_catalog:
  assumes target: "find (\<lambda>r. localId r = lid) (rows st) = Some target"
    and has_id: "truthy (srv_id target)"
    and deleted: "succeeds srv (calls st) (DeleteRule (srv_id target))"
    and reloaded: "succeeds srv (calls st @ [DeleteRule (srv_id target)]) GetRules"
  shows
    "rows (deleteRow env srv True lid st) =
       load_rows env (draws st)
         (body_list (rules_body srv (calls st @ [DeleteRule (srv_id target)]))) \<and>
     (\<forall>r \<in> set (rows st).
        \<not> truthy (srv_id r) \<and>
        localId r \<notin> set (map (\<lambda>i. genLocalId env (draws st + i))
           [0..<length (body_list (rules_body srv (calls st @ [DeleteRule (srv_id target)])))])
        \<longrightarrow> r \<notin> set (rows (deleteRow env srv True lid st)))"
proof -
  let ?catalog = "body_list (rules_body srv (calls st @ [DeleteRule (srv_id target)]))"
  have rows': "rows (deleteRow env srv True lid st) = load_rows env (draws st) ?catalog"
    using target has_id deleted reloaded
    by (simp add: deleteRow_def Let_def rows_loadBackendRules)
  have gone: "\<forall>r \<in> set (rows st).
        \<not> truthy (srv_id r) \<and>
        localId r \<notin> set (map (\<lambda>i. genLocalId env (draws st + i)) [0..<length ?catalog])
        \<longrightarrow> r \<notin> set (rows (deleteRow env srv True lid st))"
  proof (intro ballI impI)
    fix r :: EditableRow
    assume "\<not> truthy (srv_id r) \<and>
        localId r \<notin> set (map (\<lambda>i. genLocalId env (draws st + i)) [0..<length ?catalog])"
    then have "localId r \<notin> set (map localId (load_rows env (draws st) ?catalog))"
      by (simp add: load_rows_localIds)
    then have "r \<notin> set (load_rows env (draws st) ?catalog)" by auto
    then show "r \<notin> set (rows (deleteRow env srv True lid st))"
      by (simp add: rows')
  qed
  from rows' gone show ?thesis by (rule conjI)
qed

theorem delete_reloads_catalog_witness:
  "rows (deleteRow sample_env one_rule_server True ''loc_k3x9q2a'' sample_table) =
     [load_row sample_env ''loc_r2'' 0 sample_srv_rule] \<and>
   sample_local_row \<in> set (rows sample_table) \<and>
   sample_local_row \<notin> set (rows (deleteRow sample_env one_rule_server True ''loc_k3x9q2a'' sample_table))"
proof -
  have target: "find (\<lambda>r. localId r = ''loc_k3x9q2a'') (rows sample_table) = Some sample_table_row"
    by (simp add: sample_table_def sample_table_row_def)
  have has_id: "truthy (srv_id sample_table_row)"
    by (simp add: sample_table_row_def)
  have deleted: "succeeds one_rule_server (calls sample_table) (DeleteRule (srv_id sample_table_row))"
    and reloaded: "succeeds one_rule_server
        (calls sample_table @ [DeleteRule (srv_id sample_table_row)]) GetRules"
    by (simp_all add: one_rule_server_def)
  have catalog: "body_list (rules_body one_rule_server
        (calls sample_table @ [DeleteRule (srv_id sample_table_row)])) = [sample_srv_rule]"
    by (simp add: one_rule_server_def)
  have loaded: "load_rows sample_env (draws sample_table) [sample_srv_rule] =
      [load_row sample_env ''loc_r2'' 0 sample_srv_rule]"
    by (simp add: load_rows_def genLocalId_def sample_env_def sample_table_def
        show_nat.simps digit_char_def)
  have mem: "sample_local_row \<in> set (rows sample_table)"
    by (simp add: sample_table_def)
  have local: "\<not> truthy (srv_id sample_local_row) \<and>
        localId sample_local_row \<notin> set (map (\<lambda>i. genLocalId sample_env (draws sample_table + i))
           [0..<length [sample_srv_rule]])"
    by (simp add: sample_local_row_def genLocalId_def sample_env_def sample_table_def
        show_nat.simps digit_char_def)
  note d = delete_reloads_catalog [OF target has_id deleted reloaded, of sample_env,
      unfolded catalog]
  from d have r1: "rows (deleteRow sample_env one_rule_server True ''loc_k3x9q2a'' sample_table) =
     [load_row sample_env ''loc_r2'' 0 sample_srv_rule]"
    unfolding loaded by (rule conjunct1)
  from d mem local
  have r2: "sample_local_row \<notin>
      set (rows (deleteRow sample_env one_rule_server True ''loc_k3x9q2a'' sample_table))"
    by blast
  from r1 mem r2 show ?thesis by (intro conjI)
qed

end
